theory Spec2Isabelle
  imports Main "HOL-Library.Sublist"
begin

section \<open>Python values\<close>

text \<open>
  A Python \<open>str\<close> is a sequence of Unicode code points and \<open>len\<close> counts code points,
  so a string is modelled as a list of code points. \<open>py\<close> embeds an ASCII literal.
\<close>

type_synonym pystr = "nat list"

definition py :: "string \<Rightarrow> pystr" where
  "py cs = map of_char cs"

text \<open>\<open>s.startswith(p)\<close>, \<open>s.endswith(p)\<close> and \<open>p in s\<close>.\<close>

fun startswith :: "pystr \<Rightarrow> pystr \<Rightarrow> bool" where
  "startswith s [] = True"
| "startswith [] (p # ps) = False"
| "startswith (c # cs) (p # ps) = (c = p \<and> startswith cs ps)"

definition endswith :: "pystr \<Rightarrow> pystr \<Rightarrow> bool" where
  "endswith s p = startswith (rev s) (rev p)"

fun contains :: "pystr \<Rightarrow> pystr \<Rightarrow> bool" where
  "contains [] p = (p = [])"
| "contains (c # cs) p = (startswith (c # cs) p \<or> contains cs p)"

text \<open>JSON-like values, as carried by tool schemas, tool arguments and structured results.\<close>

datatype json =
    JNull
  | JBool bool
  | JNum int
  | JStr pystr
  | JArr "json list"
  | JObj "(pystr \<times> json) list"

fun is_dict :: "json \<Rightarrow> bool" where
  "is_dict (JObj kvs) = True"
| "is_dict j = False"

text \<open>
  A Python \<open>dict\<close> keeps insertion order: \<open>d[k] = v\<close> overwrites in place when \<open>k\<close> is
  present and appends otherwise; \<open>d.get(k)\<close> is \<open>map_of\<close>; \<open>del d[k]\<close> removes the entry.
\<close>

fun dict_set :: "('k \<times> 'v) list \<Rightarrow> 'k \<Rightarrow> 'v \<Rightarrow> ('k \<times> 'v) list" where
  "dict_set [] k v = [(k, v)]"
| "dict_set ((k', v') # d) k v = (if k' = k then (k, v) # d else (k', v') # dict_set d k v)"

definition dict_del :: "('k \<times> 'v) list \<Rightarrow> 'k \<Rightarrow> ('k \<times> 'v) list" where
  "dict_del d k = filter (\<lambda>kv. fst kv \<noteq> k) d"

section \<open>Connection manager: data\<close>

text \<open>A tool as discovered from a server (\<open>tool.name\<close>, \<open>tool.description\<close>, \<open>tool.inputSchema\<close>).\<close>

record tool =
  tool_name :: pystr
  tool_description :: "pystr option"
  tool_inputSchema :: json

text \<open>
  \<open>class MCPConnection\<close>. The session and the entries of the exit stack are handles of
  resources of the outside world; the exit stack lists them in acquisition order.
\<close>

record mcp_connection =
  conn_name :: pystr
  conn_session :: nat
  conn_exit_stack :: "nat list"
  conn_tools :: "tool list"
  conn_resources :: "pystr list"
  conn_prompts :: "pystr list"

text \<open>\<open>class ConnectionManager\<close>: \<open>self.connections\<close>.\<close>

type_synonym connections = "(pystr \<times> mcp_connection) list"

section \<open>The tool catalog (\<open>get_all_tools\<close>)\<close>

text \<open>The character class \<open>[a-zA-Z0-9_]\<close> and its letters.\<close>

definition ascii_letter :: "nat \<Rightarrow> bool" where
  "ascii_letter c = ((65 \<le> c \<and> c \<le> 90) \<or> (97 \<le> c \<and> c \<le> 122))"

definition word_char :: "nat \<Rightarrow> bool" where
  "word_char c = (ascii_letter c \<or> (48 \<le> c \<and> c \<le> 57) \<or> c = 95)"

text \<open>\<open>re.sub(r'[^a-zA-Z0-9_]', '_', raw_name)\<close>: every other code point becomes \<open>_\<close>.\<close>

definition re_sub_nonword :: "pystr \<Rightarrow> pystr" where
  "re_sub_nonword raw = map (\<lambda>c. if word_char c then c else 95) raw"

text \<open>
  \<open>str.isalpha\<close> on one character. On ASCII it is the letters; beyond ASCII it follows the
  Unicode tables, which are taken as the parameter \<open>uni\<close>.
\<close>

definition isalpha :: "(nat \<Rightarrow> bool) \<Rightarrow> nat \<Rightarrow> bool" where
  "isalpha uni c = (if c < 128 then ascii_letter c else uni c)"

text \<open>
  Lines 470 to 474 of \<open>get_all_tools\<close>. \<open>sanitized_name[0]\<close> raises on the empty string;
  the raw name always holds the two underscores, and the model returns the empty name in the
  branch that cannot be reached.
\<close>

definition raw_name :: "pystr \<Rightarrow> pystr \<Rightarrow> pystr" where
  "raw_name conn_id nm = conn_id @ py ''__'' @ nm"

definition sanitized_name :: "(nat \<Rightarrow> bool) \<Rightarrow> pystr \<Rightarrow> pystr \<Rightarrow> pystr" where
  "sanitized_name uni conn_id nm =
     (let sanitized = re_sub_nonword (raw_name conn_id nm) in
      case sanitized of
        [] \<Rightarrow> []
      | c # cs \<Rightarrow>
          take 63 (if \<not> isalpha uni c then py ''action_'' @ sanitized else sanitized))"

record tool_info =
  info_connection_id :: pystr
  info_real_name :: pystr

record tool_def =
  def_name :: pystr
  def_description :: pystr
  def_parameters :: json

definition tool_def_of :: "(nat \<Rightarrow> bool) \<Rightarrow> pystr \<Rightarrow> tool \<Rightarrow> tool_def" where
  "tool_def_of uni conn_id t =
     \<lparr> def_name = sanitized_name uni conn_id (tool_name t),
       def_description =
         (case tool_description t of
            None \<Rightarrow> py ''No description''
          | Some d \<Rightarrow> if d = [] then py ''No description'' else take 1024 d),
       def_parameters = (if is_dict (tool_inputSchema t) then tool_inputSchema t else JObj []) \<rparr>"

type_synonym tool_map = "(pystr \<times> tool_info) list"

text \<open>The inner loop over \<open>conn.tools\<close> and the outer loop over \<open>self.connections.items()\<close>.\<close>

fun tools_loop ::
  "(nat \<Rightarrow> bool) \<Rightarrow> pystr \<Rightarrow> tool list \<Rightarrow> tool_def list \<times> tool_map \<Rightarrow> tool_def list \<times> tool_map"
where
  "tools_loop uni conn_id [] acc = acc"
| "tools_loop uni conn_id (t # ts) (all_tools, tmap) =
     tools_loop uni conn_id ts
       (all_tools @ [tool_def_of uni conn_id t],
        dict_set tmap (sanitized_name uni conn_id (tool_name t))
          \<lparr> info_connection_id = conn_id, info_real_name = tool_name t \<rparr>)"

fun connections_loop ::
  "(nat \<Rightarrow> bool) \<Rightarrow> connections \<Rightarrow> tool_def list \<times> tool_map \<Rightarrow> tool_def list \<times> tool_map"
where
  "connections_loop uni [] acc = acc"
| "connections_loop uni ((conn_id, conn) # rest) acc =
     connections_loop uni rest (tools_loop uni conn_id (conn_tools conn) acc)"

definition get_all_tools :: "(nat \<Rightarrow> bool) \<Rightarrow> connections \<Rightarrow> tool_def list \<times> tool_map" where
  "get_all_tools uni conns = connections_loop uni conns ([], [])"

text \<open>The catalog invariant \<open>[A-Za-z][A-Za-z0-9_]{0,62}\<close>.\<close>

definition catalog_name_ok :: "pystr \<Rightarrow> bool" where
  "catalog_name_ok n =
     (case n of
        [] \<Rightarrow> False
      | c # cs \<Rightarrow> ascii_letter c \<and> list_all word_char cs \<and> length cs \<le> 62)"

section \<open>Printing numbers\<close>

text \<open>\<open>str(n)\<close> for a natural number, and the format \<open>{n:,}\<close> with thousands separators.\<close>

fun decimal :: "nat \<Rightarrow> pystr" where
  "decimal n = (if n < 10 then [48 + n] else decimal (n div 10) @ [48 + n mod 10])"

declare decimal.simps [simp del]

fun commas_rev :: "pystr \<Rightarrow> pystr" where
  "commas_rev (a # b # c # d # ds) = a # b # c # 44 # commas_rev (d # ds)"
| "commas_rev ds = ds"

definition format_commas :: "nat \<Rightarrow> pystr" where
  "format_commas n = rev (commas_rev (rev (decimal n)))"

text \<open>\<open>sep.join(parts)\<close>.\<close>

fun join :: "pystr \<Rightarrow> pystr list \<Rightarrow> pystr" where
  "join sep [] = []"
| "join sep [p] = p"
| "join sep (p # q # ps) = p @ sep @ join sep (q # ps)"

section \<open>Exceptions\<close>

text \<open>
  The exceptions derived from \<open>Exception\<close> that the code raises or catches. \<open>Raised m\<close> is any
  other such exception of a library, with \<open>str(e) = m\<close>. \<open>exn_str\<close> is \<open>str(e)\<close>; for
  \<open>HTTPException\<close> it is the status code, a colon and the detail.
\<close>

datatype exn =
    ValueError pystr
  | FileNotFoundError pystr
  | HTTPException nat pystr
  | TimeoutError
  | TypeError pystr
  | Raised pystr

fun exn_str :: "exn \<Rightarrow> pystr" where
  "exn_str (ValueError m) = m"
| "exn_str (FileNotFoundError m) = m"
| "exn_str (HTTPException code detail) = decimal code @ py '': '' @ detail"
| "exn_str TimeoutError = []"
| "exn_str (TypeError m) = m"
| "exn_str (Raised m) = m"

text \<open>
  What an awaited call of a tool can raise: an exception derived from \<open>Exception\<close>, or
  \<open>asyncio.CancelledError\<close> when the task that awaits it is cancelled. The latter derives from
  \<open>BaseException\<close> only, so that a handler \<open>except Exception\<close> does not catch it.
\<close>

datatype thrown =
    Exception exn
  | CancelledError

section \<open>The outside world\<close>

text \<open>
  The context managers that \<open>connect\<close> enters on its exit stack: the three transport clients
  and the client session over a transport's channel. A channel \<open>(read, write)\<close> is named by the
  handle of the transport that yielded it. The fixed header and timeout of \<open>sse_client\<close> are
  not represented.
\<close>

datatype ctx =
    StdioClient pystr "pystr list" "(pystr \<times> pystr) list"
  | SseClient pystr
  | StreamableHttpClient pystr
  | ClientSession nat

datatype event =
    Entered nat ctx
  | EnterFailed ctx
  | Exited nat
  | Initialize nat
  | ListTools nat
  | ListResources nat
  | ListPrompts nat
  | CallTool nat pystr json

text \<open>
  The state of the world: a counter of the calls made to it, the handles of the resources that
  are open (most recent first), and the calls made so far. A resource's handle is the counter
  at the time it was entered.
\<close>

record world =
  clock :: nat
  live :: "nat list"
  trace :: "event list"

datatype content =
    TextContent pystr
  | ImageContent pystr
  | EmbeddedResource pystr
  | OtherContent pystr

record call_tool_result =
  isError :: bool
  content :: "content list"
  structuredContent :: "json option"

text \<open>
  What the code cannot decide by itself: the interpreter and its environment, the file system,
  the libraries \<open>shlex\<close>, \<open>shutil\<close>, \<open>json\<close> and \<open>uuid\<close>, and how the servers answer. The answers
  depend on the moment of the call (the counter of the world).
\<close>

record env =
  sys_executable :: pystr
  os_environ :: "(pystr \<times> pystr) list"
  os_getcwd :: pystr
  os_path_isabs :: "pystr \<Rightarrow> bool"
  os_path_join :: "pystr list \<Rightarrow> pystr"
  os_path_basename :: "pystr \<Rightarrow> pystr"
  os_path_dirname :: "pystr \<Rightarrow> pystr"
  os_path_exists :: "pystr \<Rightarrow> bool"
  os_path_abspath :: "pystr \<Rightarrow> pystr"
  shlex_split :: "pystr \<Rightarrow> pystr + pystr list"
  shutil_which :: "pystr \<Rightarrow> pystr option"
  http_client_imported :: bool
  enter_result :: "nat \<Rightarrow> ctx \<Rightarrow> exn option"
  initialize_result :: "nat \<Rightarrow> nat \<Rightarrow> exn option"
  list_tools_result :: "nat \<Rightarrow> nat \<Rightarrow> exn + tool list"
  list_resources_result :: "nat \<Rightarrow> nat \<Rightarrow> exn + pystr list"
  list_prompts_result :: "nat \<Rightarrow> nat \<Rightarrow> exn + pystr list"
  call_tool_outcome :: "nat \<Rightarrow> nat \<Rightarrow> pystr \<Rightarrow> json \<Rightarrow> thrown + call_tool_result"
  json_dumps_indent :: "json \<Rightarrow> exn + pystr"
  content_list_str :: "content list \<Rightarrow> pystr"

text \<open>
  \<open>exit_stack.enter_async_context(cm)\<close>: on success the resource is open and on the stack;
  on failure nothing is added. \<open>exit_stack.aclose()\<close> releases the stack, last entered first.
\<close>

definition enter_async_context ::
  "env \<Rightarrow> ctx \<Rightarrow> nat list \<Rightarrow> world \<Rightarrow> (exn + nat) \<times> nat list \<times> world"
where
  "enter_async_context env cm stack w =
     (let h = clock w in
      case enter_result env h cm of
        Some e \<Rightarrow> (Inl e, stack, w\<lparr>clock := h + 1, trace := trace w @ [EnterFailed cm]\<rparr>)
      | None \<Rightarrow>
          (Inr h, stack @ [h],
           w\<lparr>clock := h + 1, live := h # live w, trace := trace w @ [Entered h cm]\<rparr>))"

definition release :: "nat \<Rightarrow> world \<Rightarrow> world" where
  "release h w = w\<lparr>live := remove1 h (live w), trace := trace w @ [Exited h]\<rparr>"

definition aclose :: "nat list \<Rightarrow> world \<Rightarrow> world" where
  "aclose stack w = fold release (rev stack) w"

section \<open>\<open>ConnectionManager.connect\<close>\<close>

text \<open>\<open>_find_script\<close>: the first candidate path that exists.\<close>

definition find_script :: "env \<Rightarrow> pystr \<Rightarrow> exn + pystr" where
  "find_script env script_name =
     (let cwd = os_getcwd env;
          search_paths =
            [if os_path_isabs env script_name then Some script_name else None,
             Some (os_path_join env [cwd, script_name]),
             Some (os_path_join env [cwd, os_path_basename env script_name]),
             Some (os_path_join env [cwd, py ''backend'', script_name]),
             Some (os_path_join env [os_path_dirname env cwd, script_name]),
             Some (os_path_join env [os_path_dirname env cwd, py ''backend'', script_name]),
             Some (os_path_basename env script_name)]
      in case List.find (\<lambda>p. case p of None \<Rightarrow> False
                                | Some q \<Rightarrow> q \<noteq> [] \<and> os_path_exists env q) search_paths of
           Some (Some q) \<Rightarrow> Inr (os_path_abspath env q)
         | _ \<Rightarrow>
             Inl (FileNotFoundError
               (py ''Could not find script '' @ [39] @ script_name @ [39] @ py ''. '' @
                py ''Current directory: '' @ cwd @ py ''. '' @
                py ''Try using the full filename like '' @ [39] @ py ''tools_server.py'' @ [39])))"

text \<open>
  Lines 204 to 226: auto-detection and validation. The result is the target and the transport
  type that the transport logic of line 229 branches on.
\<close>

definition has_http_prefix :: "pystr \<Rightarrow> bool" where
  "has_http_prefix target =
     (startswith target (py ''http://'') \<or> startswith target (py ''https://''))"

definition detect_transport :: "pystr \<Rightarrow> pystr \<Rightarrow> exn + pystr \<times> pystr" where
  "detect_transport target ty =
     (if contains target (py ''gitmcp.io'') then
        Inr (if \<not> endswith target (py ''/sse'') then target @ py ''/sse'' else target, py ''sse'')
      else if endswith target (py ''.py'') \<or> \<not> has_http_prefix target then
        Inr (target, if ty \<notin> set [py ''stdio'', py ''sse''] then py ''stdio'' else ty)
      else if ty = py ''http'' \<or> ty = py ''sse'' then
        (if \<not> has_http_prefix target then
           Inl (ValueError (py ''Invalid URL for '' @ ty @
                  py '' transport. URL must start with http:// or https://''))
         else Inr (target, ty))
      else Inr (target, ty))"

text \<open>Lines 236 to 276: the command and the arguments of the subprocess.\<close>

definition stdio_command :: "env \<Rightarrow> pystr \<Rightarrow> exn + pystr \<times> pystr list" where
  "stdio_command env target =
     (if endswith target (py ''.py'') then
        (case find_script env target of
           Inl e \<Rightarrow> Inl (HTTPException 400 (exn_str e))
         | Inr script_path \<Rightarrow> Inr (sys_executable env, [script_path]))
      else
        (case shlex_split env target of
           Inl m \<Rightarrow> Inl (HTTPException 400 (py ''Invalid command syntax: '' @ m))
         | Inr [] \<Rightarrow> Inl (ValueError (py ''Empty command''))
         | Inr (p0 # rest) \<Rightarrow>
             if p0 \<in> set [py ''python'', py ''python3'', py ''python.exe''] then
               (case rest of
                  [] \<Rightarrow> Inr (sys_executable env, [])
                | a0 # as \<Rightarrow>
                    if endswith a0 (py ''.py'') then
                      (case find_script env a0 of
                         Inl e \<Rightarrow> Inl (HTTPException 400 (exn_str e))
                       | Inr script_path \<Rightarrow> Inr (sys_executable env, script_path # as))
                    else Inr (sys_executable env, a0 # as))
             else
               Inr (case shutil_which env p0 of
                      None \<Rightarrow> p0
                    | Some full_cmd_path \<Rightarrow> if full_cmd_path = [] then p0 else full_cmd_path,
                    rest)))"

text \<open>
  Line 282: \<open>stdio_client(StdioServerParameters(command, args, env))\<close>, where \<open>env\<close> is the
  environment of the process with \<open>PYTHONUNBUFFERED\<close> set.
\<close>

definition stdio_params :: "env \<Rightarrow> pystr \<Rightarrow> pystr list \<Rightarrow> ctx" where
  "stdio_params env command args =
     StdioClient command args (dict_set (os_environ env) (py ''PYTHONUNBUFFERED'') (py ''1''))"

text \<open>
  Lines 229 to 327: the transport. Over stdio the client is entered at line 285, where a
  failure is reported as status 500, and entered again with the same parameters at line 294;
  the channel in use afterwards is the one of the second entry.
\<close>

definition open_transport ::
  "env \<Rightarrow> pystr \<Rightarrow> pystr \<Rightarrow> nat list \<Rightarrow> world \<Rightarrow> (exn + nat) \<times> nat list \<times> world"
where
  "open_transport env target ty stack w =
     (if ty = py ''stdio'' then
        (case stdio_command env target of
           Inl e \<Rightarrow> (Inl e, stack, w)
         | Inr (command, args) \<Rightarrow>
             (case enter_async_context env (stdio_params env command args) stack w of
                (Inl e, stack1, w1) \<Rightarrow>
                  (Inl (HTTPException 500
                     (py ''Failed to start server: '' @ exn_str e @ [10] @
                      py ''Command: '' @ command @ py '' '' @ join (py '' '') args)),
                   stack1, w1)
              | (Inr h1, stack1, w1) \<Rightarrow>
                  enter_async_context env (stdio_params env command args) stack1 w1))
      else if ty = py ''sse'' then
        (case enter_async_context env (SseClient target) stack w of
           (Inl e, stack1, w1) \<Rightarrow>
             (Inl (HTTPException 500
                (py ''SSE connection failed: '' @ exn_str e @ [10] @ py ''URL: '' @ target)),
              stack1, w1)
         | (Inr h, stack1, w1) \<Rightarrow> (Inr h, stack1, w1))
      else if ty = py ''http'' then
        (if \<not> http_client_imported env then
           (Inl (ValueError (py ''HTTP transport library not found.'')), stack, w)
         else
           (case enter_async_context env (StreamableHttpClient target) stack w of
              (Inl e, stack1, w1) \<Rightarrow>
                (Inl (HTTPException 500
                   (py ''HTTP connection failed: '' @ exn_str e @ [10] @ py ''URL: '' @ target)),
                 stack1, w1)
            | (Inr h, stack1, w1) \<Rightarrow> (Inr h, stack1, w1)))
      else (Inl (ValueError (py ''Unknown connection type: '' @ ty)), stack, w))"

text \<open>
  Lines 331 to 353: the session. A timeout of \<open>initialize\<close> becomes status 504, and an
  \<open>HTTPException\<close> passes. For any other exception the handler evaluates \<open>type(e).__name__\<close>,
  where \<open>type\<close> is the string parameter of \<open>connect\<close>: the call of a string raises a
  \<open>TypeError\<close>, which is what leaves the handler.
\<close>

definition session_handler :: "exn \<Rightarrow> exn" where
  "session_handler e =
     (case e of
        HTTPException code detail \<Rightarrow> e
      | _ \<Rightarrow> TypeError ([39] @ py ''str'' @ [39] @ py '' object is not callable''))"

definition initialize_session ::
  "env \<Rightarrow> nat \<Rightarrow> nat list \<Rightarrow> world \<Rightarrow> (exn + nat) \<times> nat list \<times> world"
where
  "initialize_session env channel stack w =
     (case enter_async_context env (ClientSession channel) stack w of
        (Inl e, stack1, w1) \<Rightarrow> (Inl (session_handler e), stack1, w1)
      | (Inr session, stack1, w1) \<Rightarrow>
          (let w2 = w1\<lparr>clock := clock w1 + 1, trace := trace w1 @ [Initialize session]\<rparr> in
           (case initialize_result env (clock w1) session of
              None \<Rightarrow> (Inr session, stack1, w2)
            | Some TimeoutError \<Rightarrow>
                (Inl (HTTPException 504
                   (py ''Connection timeout: Server did not respond within 30 seconds. '' @
                    py ''The server may be starting up or not responding to MCP protocol.'')),
                 stack1, w2)
            | Some e \<Rightarrow> (Inl (session_handler e), stack1, w2))))"

text \<open>Lines 355 to 375: discovery; a failure leaves the empty list.\<close>

definition discover ::
  "env \<Rightarrow> nat \<Rightarrow> world \<Rightarrow> (tool list \<times> pystr list \<times> pystr list) \<times> world"
where
  "discover env session w =
     (let fetched_tools = (case list_tools_result env (clock w) session of
                             Inl e \<Rightarrow> [] | Inr ts \<Rightarrow> ts);
          fetched_resources = (case list_resources_result env (clock w + 1) session of
                                 Inl e \<Rightarrow> [] | Inr rs \<Rightarrow> rs);
          fetched_prompts = (case list_prompts_result env (clock w + 2) session of
                               Inl e \<Rightarrow> [] | Inr ps \<Rightarrow> ps)
      in ((fetched_tools, fetched_resources, fetched_prompts),
          w\<lparr>clock := clock w + 3,
            trace := trace w @ [ListTools session, ListResources session, ListPrompts session]\<rparr>))"

record connect_status =
  status :: pystr
  tools_count :: nat
  resources_count :: nat
  prompts_count :: nat

text \<open>The body of the \<open>try\<close> of \<open>connect\<close>, with the exit stack it has filled.\<close>

definition connect_try ::
  "env \<Rightarrow> pystr \<Rightarrow> pystr \<Rightarrow> pystr \<Rightarrow> connections \<times> world \<Rightarrow>
   (exn + connect_status) \<times> nat list \<times> connections \<times> world"
where
  "connect_try env connection_id target0 ty0 st =
     (case st of (conns, w) \<Rightarrow>
     (case detect_transport target0 ty0 of
        Inl e \<Rightarrow> (Inl e, [], conns, w)
      | Inr (target, ty) \<Rightarrow>
          (case open_transport env target ty [] w of
             (Inl e, stack1, w1) \<Rightarrow> (Inl e, stack1, conns, w1)
           | (Inr channel, stack1, w1) \<Rightarrow>
               (case initialize_session env channel stack1 w1 of
                  (Inl e, stack2, w2) \<Rightarrow> (Inl e, stack2, conns, w2)
                | (Inr session, stack2, w2) \<Rightarrow>
                    (case discover env session w2 of
                       ((fetched_tools, fetched_resources, fetched_prompts), w3) \<Rightarrow>
                         (Inr \<lparr> status = py ''connected'',
                                tools_count = length fetched_tools,
                                resources_count = length fetched_resources,
                                prompts_count = length fetched_prompts \<rparr>,
                          stack2,
                          dict_set conns connection_id
                            \<lparr> conn_name = connection_id, conn_session = session,
                              conn_exit_stack = stack2, conn_tools = fetched_tools,
                              conn_resources = fetched_resources,
                              conn_prompts = fetched_prompts \<rparr>,
                          w3))))))"

text \<open>
  \<open>connect\<close>: the handler of line 402 closes the exit stack and raises status 500 with the
  text of the exception. Closing the stack is taken to succeed.
\<close>

definition connect ::
  "env \<Rightarrow> pystr \<Rightarrow> pystr \<Rightarrow> pystr \<Rightarrow> connections \<times> world \<Rightarrow>
   (exn + connect_status) \<times> connections \<times> world"
where
  "connect env connection_id target ty st =
     (case connect_try env connection_id target ty st of
        (Inl e, stack, conns, w) \<Rightarrow>
          (Inl (HTTPException 500 (py ''Connection Failed: '' @ exn_str e)), conns, aclose stack w)
      | (Inr r, stack, conns, w) \<Rightarrow> (Inr r, conns, w))"

text \<open>\<open>disconnect\<close>.\<close>

definition disconnect :: "pystr \<Rightarrow> connections \<times> world \<Rightarrow> connections \<times> world" where
  "disconnect connection_id st =
     (case st of (conns, w) \<Rightarrow>
     (case map_of conns connection_id of
        None \<Rightarrow> (conns, w)
      | Some conn \<Rightarrow> (dict_del conns connection_id, aclose (conn_exit_stack conn) w)))"

text \<open>
  The endpoint \<open>connect_mcp\<close>: lines 1266 to 1280 rewrite the requested type, then
  \<open>manager.connect\<close> runs; its exceptions pass through.
\<close>

definition endpoint_type :: "pystr \<Rightarrow> pystr \<Rightarrow> pystr" where
  "endpoint_type target ty =
     (if endswith target (py ''.py'') \<or> \<not> has_http_prefix target then
        (if ty \<noteq> py ''stdio'' then py ''stdio'' else ty)
      else if contains target (py ''gitmcp.io'') then
        (if ty \<noteq> py ''sse'' then py ''sse'' else ty)
      else ty)"

definition connect_mcp ::
  "env \<Rightarrow> pystr \<Rightarrow> pystr \<Rightarrow> pystr \<Rightarrow> connections \<times> world \<Rightarrow>
   (exn + connect_status) \<times> connections \<times> world"
where
  "connect_mcp env req_id req_target req_type st =
     connect env req_id req_target (endpoint_type req_target req_type) st"

text \<open>The number of times a context manager was entered, with or without success.\<close>

definition entries :: "ctx \<Rightarrow> event list \<Rightarrow> nat" where
  "entries cm tr =
     length (filter (\<lambda>ev. case ev of Entered h cm' \<Rightarrow> cm' = cm
                          | EnterFailed cm' \<Rightarrow> cm' = cm
                          | _ \<Rightarrow> False) tr)"

section \<open>\<open>ConnectionManager.execute_tool\<close>\<close>

definition MAX_TOOL_RESULT_LENGTH :: nat where
  "MAX_TOOL_RESULT_LENGTH = 8000"

text \<open>Truth value of a JSON value, as Python's \<open>if x\<close> takes it.\<close>

fun json_truthy :: "json \<Rightarrow> bool" where
  "json_truthy JNull = False"
| "json_truthy (JBool b) = b"
| "json_truthy (JNum n) = (n \<noteq> 0)"
| "json_truthy (JStr s) = (s \<noteq> [])"
| "json_truthy (JArr xs) = (xs \<noteq> [])"
| "json_truthy (JObj kvs) = (kvs \<noteq> [])"

text \<open>Lines 577 to 584: the text of one content item.\<close>

fun render_content :: "content \<Rightarrow> pystr" where
  "render_content (TextContent text) = text"
| "render_content (ImageContent mimeType) = py ''[Image Returned: '' @ mimeType @ py '']''"
| "render_content (EmbeddedResource uri) = py ''[Resource Embedded: '' @ uri @ py '']''"
| "render_content (OtherContent s) = s"

text \<open>Lines 570 to 584: \<open>output_parts\<close>; \<open>json.dumps\<close> may raise.\<close>

definition output_parts :: "env \<Rightarrow> call_tool_result \<Rightarrow> exn + pystr list" where
  "output_parts env result =
     (case structuredContent result of
        None \<Rightarrow> Inr (map render_content (content result))
      | Some sc \<Rightarrow>
          if json_truthy sc then
            (case json_dumps_indent env sc of
               Inl e \<Rightarrow> Inl e
             | Inr s \<Rightarrow> Inr (s # map render_content (content result)))
          else Inr (map render_content (content result)))"

text \<open>
  Lines 601 to 610: what follows the truncated text. The code points 9888 and 65039 are the
  warning sign, 128202 the bar chart and 128161 the light bulb of the source.
\<close>

definition truncation_banner :: "nat \<Rightarrow> pystr" where
  "truncation_banner original_length =
     [10, 10] @
     replicate 60 61 @ [10] @
     [9888, 65039] @ py ''  OUTPUT TRUNCATED FOR PERFORMANCE'' @ [10] @
     replicate 60 61 @ [10] @
     [128202] @ py '' Original length: '' @ format_commas original_length @
       py '' characters'' @ [10] @
     [128202] @ py '' Displayed: '' @ format_commas MAX_TOOL_RESULT_LENGTH @
       py '' characters'' @ [10] @
     [128161] @ py '' Tip: Ask me to summarize or extract specific parts'' @ [10] @
     replicate 60 61"

text \<open>Lines 589 to 610 and line 621; 9989 is the check mark.\<close>

definition truncate_output :: "pystr \<Rightarrow> pystr" where
  "truncate_output final_out =
     (if length final_out > MAX_TOOL_RESULT_LENGTH then
        take MAX_TOOL_RESULT_LENGTH final_out @ truncation_banner (length final_out)
      else final_out)"

definition success_text :: "pystr \<Rightarrow> pystr" where
  "success_text final_out =
     (if final_out \<noteq> [] then final_out else [9989] @ py '' Success (No output)'')"

text \<open>
  The body of the \<open>try\<close> of \<open>execute_tool\<close>: what the call raises, and an exception of the
  rendering, leave it.
\<close>

definition execute_tool_try ::
  "env \<Rightarrow> mcp_connection \<Rightarrow> tool_info \<Rightarrow> json \<Rightarrow> world \<Rightarrow> (thrown + pystr) \<times> world"
where
  "execute_tool_try env conn info args w =
     (let w1 = w\<lparr>clock := clock w + 1,
                 trace := trace w @ [CallTool (conn_session conn) (info_real_name info) args]\<rparr>
      in case call_tool_outcome env (clock w) (conn_session conn) (info_real_name info) args of
           Inl e \<Rightarrow> (Inl e, w1)
         | Inr result \<Rightarrow>
             if isError result then
               (Inr (py ''Tool Execution Error: '' @ content_list_str env (content result)), w1)
             else
               (case output_parts env result of
                  Inl e \<Rightarrow> (Inl (Exception e), w1)
                | Inr parts \<Rightarrow> (Inr (success_text (truncate_output (join [10] parts))), w1)))"

text \<open>
  \<open>execute_tool\<close>. The result is \<open>Inl\<close> when an exception reaches the caller and \<open>Inr\<close> when a
  text is returned; 10060 is the cross mark of line 625. The handler of line 623 is
  \<open>except Exception\<close>: it turns an exception derived from \<open>Exception\<close> into text, and a
  cancellation of the awaited call passes it and reaches the caller.
\<close>

definition execute_tool ::
  "env \<Rightarrow> connections \<Rightarrow> pystr \<Rightarrow> json \<Rightarrow> tool_map \<Rightarrow> world \<Rightarrow> (thrown + pystr) \<times> world"
where
  "execute_tool env conns unique_name args tmap w =
     (case map_of tmap unique_name of
        None \<Rightarrow> (Inr (py ''Error: Tool '' @ unique_name @ py '' not found.''), w)
      | Some info \<Rightarrow>
          (case map_of conns (info_connection_id info) of
             None \<Rightarrow> (Inr (py ''Error: Connection lost.''), w)
           | Some conn \<Rightarrow>
               (case execute_tool_try env conn info args w of
                  (Inl (Exception e), w1) \<Rightarrow>
                    (Inr ([10060] @ py '' Tool Exception: '' @ exn_str e), w1)
                | (Inl CancelledError, w1) \<Rightarrow> (Inl CancelledError, w1)
                | (Inr text, w1) \<Rightarrow> (Inr text, w1))))"

section \<open>The conversation store (\<open>database.py\<close>)\<close>

text \<open>A requested tool call \<open>{id, name, args}\<close>.\<close>

record tool_call =
  tc_id :: pystr
  tc_name :: pystr
  tc_args :: json

text \<open>
  The message dictionary given to \<open>add_message\<close>; a key that is absent is \<open>None\<close>.
\<close>

record message =
  msg_id :: "pystr option"
  msg_role :: "pystr option"
  msg_content :: "pystr option"
  msg_toolCalls :: "tool_call list option"
  msg_is_tool_result :: "bool option"
  msg_tool_call_id :: "pystr option"
  msg_image :: "json option"
  msg_thought_signature :: "pystr option"

text \<open>A row of the table \<open>messages\<close>; \<open>id\<close> is its primary key.\<close>

record row =
  row_id :: pystr
  row_session_id :: pystr
  row_role :: pystr
  row_content :: pystr
  row_image_data :: "json option"
  row_tool_calls :: "tool_call list option"
  row_is_tool_result :: bool
  row_tool_call_id :: "pystr option"
  row_thought_signature :: "pystr option"
  row_created_at :: nat

text \<open>
  \<open>add_message\<close>, given the value of \<open>uuid.uuid4()\<close> and the time of the call. The statement is
  \<open>INSERT OR REPLACE\<close>: a row with the same primary key is deleted before the new row is
  inserted. Serialized columns are kept as their values.
\<close>

definition message_row :: "pystr \<Rightarrow> nat \<Rightarrow> pystr \<Rightarrow> message \<Rightarrow> row" where
  "message_row fresh_uuid now session_id msg_data =
     \<lparr> row_id = (case msg_id msg_data of None \<Rightarrow> fresh_uuid | Some i \<Rightarrow> i),
       row_session_id = session_id,
       row_role = (case msg_role msg_data of None \<Rightarrow> py ''user'' | Some r \<Rightarrow> r),
       row_content = (case msg_content msg_data of None \<Rightarrow> [] | Some c \<Rightarrow> c),
       row_image_data =
         (case msg_image msg_data of
            None \<Rightarrow> None
          | Some j \<Rightarrow> if json_truthy j then Some j else None),
       row_tool_calls =
         (case msg_toolCalls msg_data of
            None \<Rightarrow> None
          | Some tcs \<Rightarrow> if tcs \<noteq> [] then Some tcs else None),
       row_is_tool_result = (case msg_is_tool_result msg_data of None \<Rightarrow> False | Some b \<Rightarrow> b),
       row_tool_call_id = msg_tool_call_id msg_data,
       row_thought_signature = msg_thought_signature msg_data,
       row_created_at = now \<rparr>"

definition insert_or_replace :: "row \<Rightarrow> row list \<Rightarrow> row list" where
  "insert_or_replace r rows = filter (\<lambda>r'. row_id r' \<noteq> row_id r) rows @ [r]"

definition add_message :: "pystr \<Rightarrow> nat \<Rightarrow> pystr \<Rightarrow> message \<Rightarrow> row list \<Rightarrow> pystr \<times> row list" where
  "add_message fresh_uuid now session_id msg_data rows =
     (let r = message_row fresh_uuid now session_id msg_data
      in (row_id r, insert_or_replace r rows))"

text \<open>
  A message as \<open>get_messages\<close> returns it: the columns of the row, with the key \<open>toolCalls\<close>
  present when the column \<open>tool_calls\<close> holds a value. The rows of the session come in the
  order of \<open>created_at\<close>.
\<close>

record hist_message =
  h_id :: pystr
  h_role :: pystr
  h_content :: pystr
  h_toolCalls :: "tool_call list option"
  h_is_tool_result :: bool
  h_tool_call_id :: "pystr option"

definition row_message :: "row \<Rightarrow> hist_message" where
  "row_message r =
     \<lparr> h_id = row_id r, h_role = row_role r, h_content = row_content r,
       h_toolCalls = row_tool_calls r, h_is_tool_result = row_is_tool_result r,
       h_tool_call_id = row_tool_call_id r \<rparr>"

definition get_messages :: "pystr \<Rightarrow> row list \<Rightarrow> hist_message list" where
  "get_messages session_id rows =
     map row_message (sort_key row_created_at (filter (\<lambda>r. row_session_id r = session_id) rows))"

text \<open>\<open>delete_session\<close>, as far as the table \<open>messages\<close> goes.\<close>

definition delete_session :: "pystr \<Rightarrow> row list \<Rightarrow> row list" where
  "delete_session session_id rows = filter (\<lambda>r. row_session_id r \<noteq> session_id) rows"

text \<open>
  The endpoint \<open>save_message\<close>: the message of the request goes to \<open>add_message\<close> as it is,
  with the id the caller gave it.
\<close>

definition save_message :: "pystr \<Rightarrow> nat \<Rightarrow> pystr \<Rightarrow> message \<Rightarrow> row list \<Rightarrow> row list" where
  "save_message fresh_uuid now req_session_id req_message rows =
     snd (add_message fresh_uuid now req_session_id req_message rows)"

section \<open>The streaming orchestrator\<close>

text \<open>
  The events of the stream, without the framing \<open>data: ...\<close> of each line:
  \<open>{'type': 'text', 'content': c}\<close>, \<open>{'type': 'tool_approval_request', 'tool': t}\<close>,
  \<open>{'type': 'tool_result', 'tool': n, 'result': r}\<close>, \<open>{'error': m}\<close> and the sentinel \<open>[DONE]\<close>.
\<close>

datatype sse_event =
    TextEvent pystr
  | ToolApprovalRequest tool_call
  | ToolResultEvent pystr pystr
  | ErrorEvent pystr
  | DoneEvent

text \<open>The messages of a request to Groq.\<close>

datatype groq_message =
    GroqSystem pystr
  | GroqTool "pystr option" pystr
  | GroqAssistant "pystr option" "(pystr \<times> pystr \<times> json) list option"
  | GroqUser pystr

text \<open>A chunk of the Groq stream: the deltas of its choices.\<close>

record groq_tool_call_delta =
  tcd_index :: nat
  tcd_id :: "pystr option"
  tcd_function :: "(pystr option \<times> pystr option) option"

record groq_delta =
  d_content :: "pystr option"
  d_tool_calls :: "groq_tool_call_delta list option"

type_synonym groq_chunk = "groq_delta list"

text \<open>The contents of a request to Gemini: a role and its parts.\<close>

datatype gemini_request_part =
    FunctionCallPart pystr json
  | FunctionResponsePart pystr pystr
  | TextPart pystr

type_synonym gemini_content = "pystr \<times> gemini_request_part list"

text \<open>
  A chunk of the Gemini stream: for each candidate the parts of its content, \<open>None\<close> when the
  candidate has no content or no parts. The arguments of a function call may be absent.
\<close>

record gemini_part =
  part_function_call :: "(pystr \<times> (pystr \<times> json) list option) option"
  part_text :: "pystr option"

type_synonym gemini_chunk = "gemini_part list option list"

text \<open>
  The providers and the libraries of the orchestrator: which clients were initialized, the
  active provider, the answer of each provider to a request (the chunks it streams, and the
  exception that ends the stream if there is one), \<open>json\<close> and \<open>uuid\<close>. The rewriting of the
  catalog into each provider's schema is part of the provider's answer.
\<close>

record llm =
  groq_async_client :: bool
  gemini_client :: bool
  ACTIVE_PROVIDER :: "pystr option"
  groq_create :: "groq_message list \<Rightarrow> tool_def list \<Rightarrow> groq_chunk list \<times> exn option"
  gemini_generate_content_stream ::
    "pystr \<Rightarrow> gemini_content list \<Rightarrow> tool_def list \<Rightarrow> gemini_chunk list \<times> exn option"
  json_loads :: "pystr \<Rightarrow> json option"
  json_dumps :: "json \<Rightarrow> pystr"
  uuid4 :: "nat \<Rightarrow> pystr"

text \<open>
  \<open>db.add_message\<close> as the orchestrator calls it: the default id and the time are read from
  the world.
\<close>

definition db_add_message ::
  "llm \<Rightarrow> pystr \<Rightarrow> message \<Rightarrow> row list \<times> world \<Rightarrow> row list \<times> world"
where
  "db_add_message l session_id msg_data st =
     (case st of (rows, w) \<Rightarrow>
        (snd (add_message (uuid4 l (clock w)) (clock w + 1) session_id msg_data rows),
         w\<lparr>clock := clock w + 2\<rparr>))"

definition truthy_str :: "pystr option \<Rightarrow> bool" where
  "truthy_str s = (case s of None \<Rightarrow> False | Some c \<Rightarrow> c \<noteq> [])"

definition str_or_empty :: "pystr option \<Rightarrow> pystr" where
  "str_or_empty s = (case s of None \<Rightarrow> [] | Some c \<Rightarrow> c)"

definition truthy_calls :: "tool_call list option \<Rightarrow> bool" where
  "truthy_calls tcs = (case tcs of None \<Rightarrow> False | Some cs \<Rightarrow> cs \<noteq> [])"

definition assistant_message :: "pystr \<Rightarrow> pystr \<Rightarrow> pystr \<Rightarrow> tool_call list option \<Rightarrow> message" where
  "assistant_message fresh role text calls =
     \<lparr> msg_id = Some fresh, msg_role = Some role, msg_content = Some text,
       msg_toolCalls = calls, msg_is_tool_result = None, msg_tool_call_id = None,
       msg_image = None, msg_thought_signature = None \<rparr>"

text \<open>
  Lines 721 to 724 and 949 to 952: a tool result in the history is cut at 8000 characters
  again for each request, with a note that gives the full length.
\<close>

definition truncate_for_groq :: "pystr \<Rightarrow> pystr" where
  "truncate_for_groq c =
     (if length c > 8000 then
        take 8000 c @ [10, 10] @ py ''[... Output truncated. Total length: '' @
        decimal (length c) @ py '' characters]''
      else c)"

definition truncate_for_gemini :: "pystr \<Rightarrow> pystr" where
  "truncate_for_gemini c =
     (if length c > 8000 then
        take 8000 c @ [10, 10] @ py ''[... Output truncated. Total: '' @
        decimal (length c) @ py '' chars]''
      else c)"

subsection \<open>Groq\<close>

text \<open>Lines 699 to 714: the system message, present when there are tools.\<close>

definition groq_system_message :: "tool_def list \<Rightarrow> groq_message list" where
  "groq_system_message groq_tools =
     (if groq_tools \<noteq> [] then
        [GroqSystem
          (py ''You are a helpful AI assistant with access to tools.'' @ [10, 10] @
           py ''Available Tools:'' @ [10] @
           join [10] (map (\<lambda>t. py ''- '' @ def_name t @ py '': '' @ def_description t)
                        (take 10 groq_tools)) @ [10, 10] @
           py ''IMPORTANT INSTRUCTIONS:'' @ [10] @
           py ''- When users ask '' @ [34] @ py ''what tools do you have'' @ [34] @ py '' or '' @
             [34] @ py ''list your tools'' @ [34] @
             py '', simply DESCRIBE the available tools in natural language. '' @
             py ''DO NOT execute them.'' @ [10] @
           py ''- Only use tools when the user specifically asks you to perform an action '' @
             py ''(e.g., '' @ [34] @ py ''fetch the documentation'' @ [34] @ py '', '' @
             [34] @ py ''get the data'' @ [34] @ py '').'' @ [10] @
           py ''- If a tool returns a lot of data, summarize it concisely.'' @ [10] @
           py ''- Always explain what you'' @ [39] @ py ''re doing before using a tool.'')]
      else [])"

text \<open>Lines 716 to 761: one message of the history in Groq's format.\<close>

definition groq_arguments :: "llm \<Rightarrow> json \<Rightarrow> json" where
  "groq_arguments l args =
     (if is_dict args then JStr (json_dumps l args)
      else if json_truthy args then args else JStr (py ''{}''))"

definition groq_history_message :: "llm \<Rightarrow> hist_message \<Rightarrow> groq_message list" where
  "groq_history_message l msg =
     (if h_is_tool_result msg then
        [GroqTool (h_tool_call_id msg) (truncate_for_groq (h_content msg))]
      else if h_role msg = py ''model'' \<or> h_role msg = py ''assistant'' then
        [GroqAssistant
           (if h_content msg \<noteq> [] then Some (h_content msg) else None)
           (case h_toolCalls msg of
              None \<Rightarrow> None
            | Some tcs \<Rightarrow>
                if tcs \<noteq> [] then
                  Some (map (\<lambda>tc. (tc_id tc, tc_name tc, groq_arguments l (tc_args tc))) tcs)
                else None)]
      else if h_role msg = py ''user'' then [GroqUser (h_content msg)]
      else [])"

text \<open>
  Lines 803 to 820: one fragment of a tool call goes into the buffer, which is a dictionary
  from the index of the call to its id, name and argument string.
\<close>

record buffered_call =
  b_id :: pystr
  b_name :: pystr
  b_arguments :: pystr

definition buffer_update ::
  "(nat \<times> buffered_call) list \<Rightarrow> nat \<Rightarrow> (buffered_call \<Rightarrow> buffered_call) \<Rightarrow> (nat \<times> buffered_call) list"
where
  "buffer_update buffer idx f = map (\<lambda>(k, b). if k = idx then (k, f b) else (k, b)) buffer"

definition accumulate_tool_call ::
  "(nat \<times> buffered_call) list \<Rightarrow> groq_tool_call_delta \<Rightarrow> (nat \<times> buffered_call) list"
where
  "accumulate_tool_call buffer tool_call =
     (let idx = tcd_index tool_call;
          buffer1 =
            (if map_of buffer idx = None then
               dict_set buffer idx
                 \<lparr> b_id = str_or_empty (tcd_id tool_call), b_name = [], b_arguments = [] \<rparr>
             else buffer);
          buffer2 =
            (if truthy_str (tcd_id tool_call) then
               buffer_update buffer1 idx (\<lambda>b. b\<lparr>b_id := str_or_empty (tcd_id tool_call)\<rparr>)
             else buffer1)
      in case tcd_function tool_call of
           None \<Rightarrow> buffer2
         | Some (name, arguments) \<Rightarrow>
             (let buffer3 =
                    (if truthy_str name then
                       buffer_update buffer2 idx (\<lambda>b. b\<lparr>b_name := str_or_empty name\<rparr>)
                     else buffer2)
              in if truthy_str arguments then
                   buffer_update buffer3 idx
                     (\<lambda>b. b\<lparr>b_arguments := b_arguments b @ str_or_empty arguments\<rparr>)
                 else buffer3))"

text \<open>
  Lines 790 to 820: one chunk. The state is the text so far, the buffer and the events
  emitted so far.
\<close>

type_synonym groq_state = "pystr \<times> (nat \<times> buffered_call) list \<times> sse_event list"

fun groq_chunk_step :: "groq_state \<Rightarrow> groq_chunk \<Rightarrow> groq_state" where
  "groq_chunk_step (final_text, buffer, events) [] = (final_text, buffer, events)"
| "groq_chunk_step (final_text, buffer, events) (delta # other_choices) =
     (if truthy_str (d_content delta) then final_text @ str_or_empty (d_content delta)
      else final_text,
      (case d_tool_calls delta of
         None \<Rightarrow> buffer
       | Some tool_calls \<Rightarrow> foldl accumulate_tool_call buffer tool_calls),
      (if truthy_str (d_content delta) then events @ [TextEvent (str_or_empty (d_content delta))]
       else events))"

text \<open>Lines 825 to 836: a completed call; an argument string that does not parse gives \<open>{}\<close>.\<close>

definition completed_call :: "llm \<Rightarrow> buffered_call \<Rightarrow> tool_call" where
  "completed_call l b =
     \<lparr> tc_id = b_id b, tc_name = b_name b,
       tc_args = (case json_loads l (b_arguments b) of None \<Rightarrow> JObj [] | Some args \<Rightarrow> args) \<rparr>"

text \<open>\<open>stream_groq_response\<close>: the events it yields, and the store and the world afterwards.\<close>

definition stream_groq_response ::
  "llm \<Rightarrow> (nat \<Rightarrow> bool) \<Rightarrow> connections \<Rightarrow> pystr \<Rightarrow> hist_message list \<Rightarrow> row list \<times> world \<Rightarrow>
   sse_event list \<times> row list \<times> world"
where
  "stream_groq_response l uni conns session_id raw_history st =
     (if \<not> groq_async_client l then ([ErrorEvent (py ''Groq client not initialized'')], st)
      else
        (let groq_tools = fst (get_all_tools uni conns);
             groq_messages =
               groq_system_message groq_tools @ concat (map (groq_history_message l) raw_history)
         in if groq_messages = [] then ([], st)
            else
              (case groq_create l groq_messages groq_tools of
                 (chunks, failure) \<Rightarrow>
                   (case foldl groq_chunk_step ([], [], []) chunks of
                      (final_text, buffer, events) \<Rightarrow>
                        (case failure of
                           Some e \<Rightarrow> (events @ [ErrorEvent (exn_str e)], st)
                         | None \<Rightarrow>
                             if buffer \<noteq> [] then
                               (let tool_calls_list = map (completed_call l) (map snd buffer)
                                in (events @
                                      (case tool_calls_list of
                                         [] \<Rightarrow> []
                                       | first # others \<Rightarrow> [ToolApprovalRequest first]) @
                                      [DoneEvent],
                                    db_add_message l session_id
                                      (assistant_message (uuid4 l (clock (snd st)))
                                         (py ''assistant'') final_text (Some tool_calls_list))
                                      (fst st, (snd st)\<lparr>clock := clock (snd st) + 1\<rparr>)))
                             else
                               (events @ [DoneEvent],
                                if final_text \<noteq> [] then
                                  db_add_message l session_id
                                    (assistant_message (uuid4 l (clock (snd st)))
                                       (py ''assistant'') final_text None)
                                    (fst st, (snd st)\<lparr>clock := clock (snd st) + 1\<rparr>)
                                else st))))))"

subsection \<open>Gemini\<close>

text \<open>Lines 908 to 920: the system instruction.\<close>

definition gemini_system_instruction :: "tool_def list \<Rightarrow> pystr" where
  "gemini_system_instruction gemini_tools =
     (if gemini_tools \<noteq> [] then
        py ''You are a helpful AI assistant with access to tools.'' @ [10, 10] @
        py ''Available Tools: '' @ join (py '', '') (map def_name (take 10 gemini_tools)) @
          [10, 10] @
        py ''IMPORTANT INSTRUCTIONS:'' @ [10] @
        py ''- When users ask '' @ [34] @ py ''what tools do you have'' @ [34] @ py '' or '' @
          [34] @ py ''list your tools'' @ [34] @
          py '', simply DESCRIBE the available tools. DO NOT execute them.'' @ [10] @
        py ''- Only use tools when the user specifically asks you to perform an action.'' @ [10] @
        py ''- If a tool returns a lot of data, summarize it concisely.'' @ [10] @
        py ''- Always explain what you'' @ [39] @ py ''re doing before using a tool.'' @ [10]
      else py ''You are a helpful AI assistant.'')"

text \<open>
  Line 944: \<open>re.search(r"Tool '([^']+)' Output:", content)\<close>, the group of the leftmost match.
  At a position the pattern matches when the text \<open>Tool '\<close> is followed by a non-empty run of
  characters other than the apostrophe, which must be the whole run up to the next
  apostrophe, and then by \<open>' Output:\<close>.
\<close>

definition re_match_tool_name :: "pystr \<Rightarrow> pystr option" where
  "re_match_tool_name s =
     (if startswith s (py ''Tool '' @ [39]) then
        (let rest = drop 6 s;
             name = takeWhile (\<lambda>c. c \<noteq> 39) rest;
             after = dropWhile (\<lambda>c. c \<noteq> 39) rest
         in if name \<noteq> [] \<and> startswith after ([39] @ py '' Output:'') then Some name else None)
      else None)"

fun re_search_tool_name :: "pystr \<Rightarrow> pystr option" where
  "re_search_tool_name [] = None"
| "re_search_tool_name (c # cs) =
     (case re_match_tool_name (c # cs) of
        Some name \<Rightarrow> Some name
      | None \<Rightarrow> re_search_tool_name cs)"

text \<open>Lines 930 to 963: one message of the history in Gemini's format.\<close>

definition gemini_tool_name :: "pystr \<Rightarrow> pystr" where
  "gemini_tool_name content_text =
     (case re_search_tool_name content_text of
        None \<Rightarrow> py ''unknown_tool''
      | Some name \<Rightarrow> name)"

definition gemini_history_message :: "hist_message \<Rightarrow> gemini_content list" where
  "gemini_history_message msg =
     (let role = (if h_role msg = py ''model'' then py ''model'' else py ''user'');
          parts =
            (if truthy_calls (h_toolCalls msg) then
               (case h_toolCalls msg of
                  None \<Rightarrow> []
                | Some tcs \<Rightarrow> map (\<lambda>tc. FunctionCallPart (tc_name tc) (tc_args tc)) tcs)
             else if h_is_tool_result msg then
               [FunctionResponsePart (gemini_tool_name (h_content msg))
                  (truncate_for_gemini (h_content msg))]
             else if h_content msg \<noteq> [] then [TextPart (h_content msg)]
             else [])
      in if parts \<noteq> [] then [(role, parts)] else [])"

text \<open>
  Lines 983 to 1022: the loops over the chunks and over the parts of the first candidate. A
  function call ends the turn there and then; a candidate without parts, and a function call
  without arguments (\<open>dict(None)\<close>), raise.
\<close>

type_synonym gemini_state = "pystr \<times> sse_event list \<times> row list \<times> world"

datatype gemini_flow =
    Next gemini_state
  | Returned gemini_state
  | Raising exn gemini_state

fun gemini_parts_loop :: "llm \<Rightarrow> pystr \<Rightarrow> gemini_part list \<Rightarrow> gemini_state \<Rightarrow> gemini_flow" where
  "gemini_parts_loop l session_id [] st = Next st"
| "gemini_parts_loop l session_id (part # parts) (final_text, events, rows, w) =
     (case part_function_call part of
        Some (name, None) \<Rightarrow>
          Raising (TypeError ([39] @ py ''NoneType'' @ [39] @ py '' object is not iterable''))
            (final_text, events, rows, w\<lparr>clock := clock w + 1\<rparr>)
      | Some (name, Some args) \<Rightarrow>
          (let tool_data = \<lparr> tc_id = uuid4 l (clock w), tc_name = name, tc_args = JObj args \<rparr>;
               st1 = db_add_message l session_id
                       (assistant_message (uuid4 l (clock w + 1)) (py ''model'') final_text
                          (Some [tool_data]))
                       (rows, w\<lparr>clock := clock w + 2\<rparr>)
           in Returned (final_text, events @ [ToolApprovalRequest tool_data, DoneEvent],
                        fst st1, snd st1))
      | None \<Rightarrow>
          gemini_parts_loop l session_id parts
            (if truthy_str (part_text part) then
               (final_text @ str_or_empty (part_text part),
                events @ [TextEvent (str_or_empty (part_text part))], rows, w)
             else (final_text, events, rows, w)))"

fun gemini_chunks_loop :: "llm \<Rightarrow> pystr \<Rightarrow> gemini_chunk list \<Rightarrow> gemini_state \<Rightarrow> gemini_flow" where
  "gemini_chunks_loop l session_id [] st = Next st"
| "gemini_chunks_loop l session_id ([] # chunks) st = gemini_chunks_loop l session_id chunks st"
| "gemini_chunks_loop l session_id ((None # other_candidates) # chunks) st =
     Raising (TypeError ([39] @ py ''NoneType'' @ [39] @ py '' object is not iterable'')) st"
| "gemini_chunks_loop l session_id ((Some parts # other_candidates) # chunks) st =
     (case gemini_parts_loop l session_id parts st of
        Next st1 \<Rightarrow> gemini_chunks_loop l session_id chunks st1
      | Returned st1 \<Rightarrow> Returned st1
      | Raising e st1 \<Rightarrow> Raising e st1)"

text \<open>\<open>stream_gemini_response\<close>.\<close>

definition stream_gemini_response ::
  "llm \<Rightarrow> (nat \<Rightarrow> bool) \<Rightarrow> connections \<Rightarrow> pystr \<Rightarrow> hist_message list \<Rightarrow> row list \<times> world \<Rightarrow>
   sse_event list \<times> row list \<times> world"
where
  "stream_gemini_response l uni conns session_id raw_history st =
     (if \<not> gemini_client l then ([ErrorEvent (py ''Gemini client not initialized'')], st)
      else
        (let gemini_tools = fst (get_all_tools uni conns);
             gemini_history = concat (map gemini_history_message raw_history)
         in if gemini_history = [] then ([], st)
            else
              (case gemini_generate_content_stream l (gemini_system_instruction gemini_tools)
                      gemini_history gemini_tools of
                 (chunks, failure) \<Rightarrow>
                   (case gemini_chunks_loop l session_id chunks ([], [], fst st, snd st) of
                      Returned (final_text, events, rows, w) \<Rightarrow> (events, rows, w)
                    | Raising e (final_text, events, rows, w) \<Rightarrow>
                        (events @ [ErrorEvent (exn_str e)], rows, w)
                    | Next (final_text, events, rows, w) \<Rightarrow>
                        (case failure of
                           Some e \<Rightarrow> (events @ [ErrorEvent (exn_str e)], rows, w)
                         | None \<Rightarrow>
                             (events @ [DoneEvent],
                              if final_text \<noteq> [] then
                                db_add_message l session_id
                                  (assistant_message (uuid4 l (clock w)) (py ''model'')
                                     final_text None)
                                  (rows, w\<lparr>clock := clock w + 1\<rparr>)
                              else (rows, w)))))))"

subsection \<open>The router and the endpoints\<close>

definition stream_llm_response ::
  "llm \<Rightarrow> (nat \<Rightarrow> bool) \<Rightarrow> connections \<Rightarrow> pystr \<Rightarrow> hist_message list \<Rightarrow> pystr option \<Rightarrow>
   row list \<times> world \<Rightarrow> sse_event list \<times> row list \<times> world"
where
  "stream_llm_response l uni conns session_id raw_history provider st =
     (let provider1 = (case provider of None \<Rightarrow> ACTIVE_PROVIDER l | Some p \<Rightarrow> Some p)
      in if provider1 = Some (py ''groq'') then
           stream_groq_response l uni conns session_id raw_history st
         else if provider1 = Some (py ''gemini'') then
           stream_gemini_response l uni conns session_id raw_history st
         else ([ErrorEvent (py ''No LLM provider available'')], st))"

text \<open>
  \<open>execute_tool_endpoint\<close>: the tool runs, its result is stored as a turn of the session
  (lines 1154 to 1160), and the stream of the response starts with the result and goes on
  with the next turn of the model. What \<open>execute_tool\<close> raises leaves the endpoint before
  anything is stored.
\<close>

record execute_tool_request =
  req_session_id :: pystr
  req_tool_call_id :: pystr
  req_tool_name :: pystr
  req_tool_args :: json

text \<open>Line 1157: \<open>f"Tool '{req.tool_name}' Output:\n{result_text}"\<close>.\<close>

definition tool_result_content :: "pystr \<Rightarrow> pystr \<Rightarrow> pystr" where
  "tool_result_content name result_text =
     py ''Tool '' @ [39] @ name @ [39] @ py '' Output:'' @ [10] @ result_text"

definition tool_result_message :: "pystr \<Rightarrow> execute_tool_request \<Rightarrow> pystr \<Rightarrow> message" where
  "tool_result_message fresh req result_text =
     \<lparr> msg_id = Some fresh, msg_role = Some (py ''user''),
       msg_content = Some (tool_result_content (req_tool_name req) result_text),
       msg_toolCalls = None, msg_is_tool_result = Some True,
       msg_tool_call_id = Some (req_tool_call_id req),
       msg_image = None, msg_thought_signature = None \<rparr>"

definition persist_tool_result ::
  "env \<Rightarrow> llm \<Rightarrow> (nat \<Rightarrow> bool) \<Rightarrow> execute_tool_request \<Rightarrow> connections \<Rightarrow> row list \<times> world \<Rightarrow>
   thrown + pystr \<times> row list \<times> world"
where
  "persist_tool_result env l uni req conns st =
     (case execute_tool env conns (req_tool_name req) (req_tool_args req)
             (snd (get_all_tools uni conns)) (snd st) of
        (Inl e, w1) \<Rightarrow> Inl e
      | (Inr result_text, w1) \<Rightarrow>
          Inr (result_text,
               db_add_message l (req_session_id req)
                 (tool_result_message (uuid4 l (clock w1)) req result_text)
                 (fst st, w1\<lparr>clock := clock w1 + 1\<rparr>)))"

definition execute_tool_endpoint ::
  "env \<Rightarrow> llm \<Rightarrow> (nat \<Rightarrow> bool) \<Rightarrow> execute_tool_request \<Rightarrow> connections \<Rightarrow> row list \<times> world \<Rightarrow>
   thrown + sse_event list \<times> row list \<times> world"
where
  "execute_tool_endpoint env l uni req conns st =
     (case persist_tool_result env l uni req conns st of
        Inl e \<Rightarrow> Inl e
      | Inr (result_text, st1) \<Rightarrow>
          (case stream_llm_response l uni conns (req_session_id req)
                  (get_messages (req_session_id req) (fst st1)) None st1 of
             (events, st2) \<Rightarrow>
               Inr (ToolResultEvent (req_tool_name req) result_text # events, st2)))"

text \<open>
  \<open>chat_endpoint\<close>: the message of the request is stored as it comes, with the id the caller
  gave it if there is one, and the turn of the model is streamed with the provider of the
  request's configuration. The title of a new session is generated in the background and
  written to the table of the sessions only.
\<close>

definition chat_endpoint ::
  "llm \<Rightarrow> (nat \<Rightarrow> bool) \<Rightarrow> pystr \<Rightarrow> message \<Rightarrow> pystr option \<Rightarrow> connections \<Rightarrow> row list \<times> world \<Rightarrow>
   exn + sse_event list \<times> row list \<times> world"
where
  "chat_endpoint l uni req_session req_new_message config_provider conns st =
     (if ACTIVE_PROVIDER l = None then
        Inl (HTTPException 500
               (py ''No LLM provider initialized. Please set GROQ_API_KEY or '' @
                py ''GOOGLE_API_KEY/GOOGLE_CLOUD_PROJECT.''))
      else
        (let st1 = db_add_message l req_session req_new_message st
         in Inr (stream_llm_response l uni conns req_session
                   (get_messages req_session (fst st1)) config_provider st1)))"

text \<open>The shape of an event, and the shapes of a turn that ran to its end.\<close>

datatype shape = TextShape | ApprovalShape | ResultShape | ErrorShape | DoneShape

fun shape_of :: "sse_event \<Rightarrow> shape" where
  "shape_of (TextEvent c) = TextShape"
| "shape_of (ToolApprovalRequest t) = ApprovalShape"
| "shape_of (ToolResultEvent n r) = ResultShape"
| "shape_of (ErrorEvent m) = ErrorShape"
| "shape_of DoneEvent = DoneShape"


text \<open>Events that are all text, and the text they carry.\<close>

definition all_text :: "sse_event list \<Rightarrow> bool" where
  "all_text events = list_all (\<lambda>e. shape_of e = TextShape) events"

fun event_text :: "sse_event \<Rightarrow> pystr" where
  "event_text (TextEvent c) = c"
| "event_text e = []"

definition relayed_text :: "sse_event list \<Rightarrow> pystr" where
  "relayed_text events = concat (map event_text events)"

text \<open>The function calls that a Gemini stream holds, in the first candidate of each chunk.\<close>

definition gemini_stream_calls :: "gemini_chunk list \<Rightarrow> (pystr \<times> (pystr \<times> json) list option) list" where
  "gemini_stream_calls chunks =
     concat (map (\<lambda>chunk. case chunk of
                     Some parts # other_candidates \<Rightarrow>
                       concat (map (\<lambda>part. case part_function_call part of
                                               None \<Rightarrow> [] | Some fc \<Rightarrow> [fc]) parts)
                   | _ \<Rightarrow> []) chunks)"

text \<open>
  A Gemini stream in which the first candidate of every chunk has parts and every function
  call has arguments: no exception is raised while it is read.
\<close>

definition gemini_stream_ok :: "gemini_chunk list \<Rightarrow> bool" where
  "gemini_stream_ok chunks =
     (list_all (\<lambda>chunk. case chunk of None # other_candidates \<Rightarrow> False | _ \<Rightarrow> True) chunks \<and>
      list_all (\<lambda>fc. snd fc \<noteq> None) (gemini_stream_calls chunks))"

text \<open>A chunk of the Groq stream that carries a fragment of a tool call.\<close>

definition groq_has_tool_call :: "groq_chunk \<Rightarrow> bool" where
  "groq_has_tool_call chunk =
     (case chunk of
        [] \<Rightarrow> False
      | delta # other_choices \<Rightarrow>
          (case d_tool_calls delta of None \<Rightarrow> False | Some tcs \<Rightarrow> tcs \<noteq> []))"

text \<open>
  A turn of the Gemini path that ends at a function call, after the text events \<open>pre\<close>: the
  approval request for that call and the sentinel, and one stored turn of role \<open>model\<close> with
  the text relayed so far and that one call.
\<close>

definition gemini_call_turn ::
  "llm \<Rightarrow> pystr \<Rightarrow> row list \<Rightarrow> world \<Rightarrow> sse_event list \<Rightarrow> pystr \<Rightarrow> (pystr \<times> json) list \<Rightarrow>
   sse_event list \<times> row list \<times> world"
where
  "gemini_call_turn l sid rows w pre name args =
     (pre @ [ToolApprovalRequest \<lparr> tc_id = uuid4 l (clock w), tc_name = name,
                                   tc_args = JObj args \<rparr>, DoneEvent],
      snd (add_message (uuid4 l (clock w + 2)) (clock w + 3) sid
             (assistant_message (uuid4 l (clock w + 1)) (py ''model'') (relayed_text pre)
                (Some [\<lparr> tc_id = uuid4 l (clock w), tc_name = name, tc_args = JObj args \<rparr>]))
             rows),
      w\<lparr>clock := clock w + 4\<rparr>)"


definition flow_spec ::
  "llm \<Rightarrow> pystr \<Rightarrow> row list \<Rightarrow> world \<Rightarrow> (pystr \<times> (pystr \<times> json) list option) list \<Rightarrow> gemini_flow \<Rightarrow> bool"
where
  "flow_spec l sid rows w calls f =
     (case f of
        Next (ft1, evs1, rows1, w1) \<Rightarrow>
          all_text evs1 \<and> ft1 = relayed_text evs1 \<and> rows1 = rows \<and> w1 = w \<and> calls = []
      | Raising e (ft1, evs1, rows1, w1) \<Rightarrow>
          all_text evs1 \<and> rows1 = rows \<and> \<not> list_all (\<lambda>fc. snd fc \<noteq> None) calls
      | Returned (ft1, evs1, rows1, w1) \<Rightarrow>
          (\<exists>pre name args others. calls = (name, Some args) # others \<and> all_text pre \<and>
             (evs1, rows1, w1) = gemini_call_turn l sid rows w pre name args))"

text \<open>
  The resources of an exit stack are those opened last: the open resources are the stack,
  last entered first, on top of the resources that were open at \<open>w0\<close>.
\<close>

definition owns :: "nat list \<Rightarrow> world \<Rightarrow> world \<Rightarrow> bool" where
  "owns stack w0 w = (live w = rev stack @ live w0)"

text \<open>The clients of the two network transports.\<close>

definition network_client :: "ctx \<Rightarrow> bool" where
  "network_client cm = (case cm of SseClient url \<Rightarrow> True | StreamableHttpClient url \<Rightarrow> True | _ \<Rightarrow> False)"

text \<open>
  The handles entered by a run of events, in order; and what a part of \<open>connect\<close> does to the
  exit stack and the world: it extends the trace by events none of which is an exit, pushes
  the handles entered on the stack, and leaves them open.
\<close>

definition entered_handles :: "event list \<Rightarrow> nat list" where
  "entered_handles evs = concat (map (\<lambda>ev. case ev of Entered h cm \<Rightarrow> [h] | _ \<Rightarrow> []) evs)"

definition grows :: "nat list \<Rightarrow> world \<Rightarrow> nat list \<Rightarrow> world \<Rightarrow> bool" where
  "grows stack w stack' w' =
     (\<exists>evs. trace w' = trace w @ evs \<and> stack' = stack @ entered_handles evs \<and>
            live w' = rev (entered_handles evs) @ live w \<and> (\<forall>h. Exited h \<notin> set evs))"

section \<open>A sample environment\<close>

text \<open>
  An environment in which the script \<open>/srv/tools_server.py\<close> exists and every call to the
  outside succeeds, and a world with nothing open.
\<close>

definition demo_env :: env where
  "demo_env =
     \<lparr> sys_executable = py ''/usr/bin/python3'',
       os_environ = [(py ''HOME'', py ''/root'')],
       os_getcwd = py ''/srv'',
       os_path_isabs = (\<lambda>p. startswith p (py ''/'')),
       os_path_join = join (py ''/''),
       os_path_basename = (\<lambda>p. p),
       os_path_dirname = (\<lambda>p. py ''/''),
       os_path_exists = (\<lambda>p. p = py ''/srv/tools_server.py''),
       os_path_abspath = (\<lambda>p. p),
       shlex_split = (\<lambda>s. Inr [s]),
       shutil_which = (\<lambda>c. None),
       http_client_imported = True,
       enter_result = (\<lambda>n cm. None),
       initialize_result = (\<lambda>n s. None),
       list_tools_result = (\<lambda>n s. Inr []),
       list_resources_result = (\<lambda>n s. Inr []),
       list_prompts_result = (\<lambda>n s. Inr []),
       call_tool_outcome =
         (\<lambda>n s nm args. Inr \<lparr> isError = False, content = [], structuredContent = None \<rparr>),
       json_dumps_indent = (\<lambda>j. Inr (py ''{}'')),
       content_list_str = (\<lambda>cs. py ''[]'') \<rparr>"

definition demo_llm :: llm where
  "demo_llm =
     \<lparr> groq_async_client = True,
       gemini_client = True,
       ACTIVE_PROVIDER = Some (py ''groq''),
       groq_create = (\<lambda>messages tools. ([], None)),
       gemini_generate_content_stream = (\<lambda>instruction contents tools. ([], None)),
       json_loads = (\<lambda>s. if s = py ''{}'' then Some (JObj []) else None),
       json_dumps = (\<lambda>j. py ''{}''),
       uuid4 = (\<lambda>n. py ''uuid-'' @ decimal n) \<rparr>"

definition user_turn :: "pystr \<Rightarrow> hist_message" where
  "user_turn text =
     \<lparr> h_id = py ''m1'', h_role = py ''user'', h_content = text, h_toolCalls = None,
       h_is_tool_result = False, h_tool_call_id = None \<rparr>"

definition tool_llm :: llm where
  "tool_llm =
     demo_llm
       \<lparr> groq_create := (\<lambda>messages tools.
            ([ [\<lparr> d_content = Some (py ''Hi''), d_tool_calls = None \<rparr>],
              [\<lparr> d_content = None,
                 d_tool_calls = Some [\<lparr> tcd_index = 0, tcd_id = Some (py ''call_1''),
                                        tcd_function = Some (Some (py ''a__t''), Some (py ''{'')) \<rparr>] \<rparr>],
              [\<lparr> d_content = None,
                 d_tool_calls = Some [\<lparr> tcd_index = 0, tcd_id = None,
                                        tcd_function = Some (None, Some (py ''}'')) \<rparr>] \<rparr>] ],
             None)),
         gemini_generate_content_stream := (\<lambda>instruction contents tools.
            ([ [Some [\<lparr> part_function_call = None, part_text = Some (py ''Hi'') \<rparr>,
                     \<lparr> part_function_call = Some (py ''a__t'', Some []), part_text = None \<rparr>,
                     \<lparr> part_function_call = Some (py ''a__u'', Some []), part_text = None \<rparr>] ]],
             None)) \<rparr>"

definition demo_request :: execute_tool_request where
  "demo_request =
     \<lparr> req_session_id = py ''s'', req_tool_call_id = py ''call_1'', req_tool_name = py ''a__t'',
       req_tool_args = JObj [] \<rparr>"

definition idle_world :: world where
  "idle_world = \<lparr> clock = 0, live = [], trace = [] \<rparr>"

definition demo_connections :: connections where
  "demo_connections =
     [(py ''a'', \<lparr> conn_name = py ''a'', conn_session = 2, conn_exit_stack = [0, 1, 2],
                   conn_tools = [\<lparr> tool_name = py ''t'', tool_description = None,
                                   tool_inputSchema = JObj [] \<rparr>],
                   conn_resources = [], conn_prompts = [] \<rparr>)]"

definition demo_tool_map :: tool_map where
  "demo_tool_map = [(py ''a__t'', \<lparr> info_connection_id = py ''a'', info_real_name = py ''t'' \<rparr>)]"

definition demo_message :: "pystr \<Rightarrow> message" where
  "demo_message text =
     \<lparr> msg_id = Some (py ''m1''), msg_role = Some (py ''user''), msg_content = Some text,
       msg_toolCalls = None, msg_is_tool_result = None, msg_tool_call_id = None,
       msg_image = None, msg_thought_signature = None \<rparr>"

section \<open>Strings: basic facts\<close>

lemma startswith_prefix: "startswith s p = prefix p s"
  by (induction s p rule: startswith.induct) auto

lemma endswith_suffix: "endswith s p = suffix p s"
  by (simp add: endswith_def startswith_prefix suffix_to_prefix)

lemma contains_sublist: "contains s p = sublist p s"
proof (induction s)
  case Nil
  show ?case by simp
next
  case (Cons c cs)
  show ?case
    by (simp add: Cons.IH startswith_prefix sublist_Cons_right)
qed

lemma length_py [simp]: "length (py cs) = length cs"
  by (simp add: py_def)

section \<open>Catalog names\<close>

lemma word_char_re_sub: "list_all word_char (re_sub_nonword raw)"
  by (induction raw) (simp_all add: re_sub_nonword_def word_char_def)

lemma length_re_sub [simp]: "length (re_sub_nonword raw) = length raw"
  by (simp add: re_sub_nonword_def)

lemma raw_name_not_empty: "re_sub_nonword (raw_name conn_id nm) \<noteq> []"
  by (simp add: re_sub_nonword_def raw_name_def py_def)

lemma word_char_action: "list_all word_char (py ''action_'')"
  by (simp add: py_def word_char_def ascii_letter_def)

lemma isalpha_word_char: "word_char c \<Longrightarrow> isalpha uni c = ascii_letter c"
  by (auto simp: isalpha_def word_char_def ascii_letter_def)

lemma list_all_take: "list_all P xs \<Longrightarrow> list_all P (take n xs)"
  by (auto simp: list_all_iff dest: in_set_takeD)

lemma sanitized_name_ok: "catalog_name_ok (sanitized_name uni conn_id nm)"
proof -
  obtain c cs where s: "re_sub_nonword (raw_name conn_id nm) = c # cs"
    using raw_name_not_empty [of conn_id nm] by (cases "re_sub_nonword (raw_name conn_id nm)") auto
  have wc: "word_char c" and wcs: "list_all word_char cs"
    using word_char_re_sub [of "raw_name conn_id nm"] by (simp_all add: s)
  show ?thesis
  proof (cases "ascii_letter c")
    case True
    then have "sanitized_name uni conn_id nm = c # take 62 cs"
      using wc by (simp add: sanitized_name_def s isalpha_word_char)
    then show ?thesis
      using True wcs by (simp add: catalog_name_ok_def list_all_take)
  next
    case False
    then have "sanitized_name uni conn_id nm = 97 # take 62 (py ''ction_'' @ c # cs)"
      using wc by (simp add: sanitized_name_def s isalpha_word_char py_def)
    moreover have "list_all word_char (py ''ction_'' @ c # cs)"
      using wc wcs by (simp add: py_def word_char_def ascii_letter_def)
    ultimately show ?thesis
      by (simp add: catalog_name_ok_def list_all_take ascii_letter_def)
  qed
qed

lemma sanitized_name_long:
  assumes "63 < length (re_sub_nonword (raw_name conn_id nm))"
  shows "length (sanitized_name uni conn_id nm) = 63"
proof -
  obtain c cs where s: "re_sub_nonword (raw_name conn_id nm) = c # cs"
    using raw_name_not_empty [of conn_id nm] by (cases "re_sub_nonword (raw_name conn_id nm)") auto
  have "62 < length cs"
    using assms by (simp add: s)
  then show ?thesis
    by (simp add: sanitized_name_def s Let_def)
qed

lemma tools_loop_fst:
  "fst (tools_loop uni conn_id ts acc) = fst acc @ map (tool_def_of uni conn_id) ts"
  by (induction uni conn_id ts acc rule: tools_loop.induct) simp_all

lemma connections_loop_fst:
  "fst (connections_loop uni conns acc) =
     fst acc @ concat (map (\<lambda>(conn_id, conn). map (tool_def_of uni conn_id) (conn_tools conn)) conns)"
  by (induction uni conns acc rule: connections_loop.induct) (simp_all add: tools_loop_fst)

lemma get_all_tools_fst:
  "fst (get_all_tools uni conns) =
     concat (map (\<lambda>(conn_id, conn). map (tool_def_of uni conn_id) (conn_tools conn)) conns)"
  by (simp add: get_all_tools_def connections_loop_fst)

lemma dict_set_keys: "fst ` set (dict_set d k v) = insert k (fst ` set d)"
  by (induction d k v rule: dict_set.induct) auto

lemma tools_loop_keys:
  "fst ` set (snd (tools_loop uni conn_id ts acc)) =
     fst ` set (snd acc) \<union> (\<lambda>t. sanitized_name uni conn_id (tool_name t)) ` set ts"
  by (induction uni conn_id ts acc rule: tools_loop.induct) (auto simp: dict_set_keys)

lemma connections_loop_keys:
  "k \<in> fst ` set (snd (connections_loop uni conns acc)) \<Longrightarrow>
     k \<in> fst ` set (snd acc) \<or> (\<exists>conn_id nm. k = sanitized_name uni conn_id nm)"
proof (induction uni conns acc rule: connections_loop.induct)
  case (1 uni acc)
  then show ?case by simp
next
  case (2 uni conn_id conn rest acc)
  from "2.IH" [OF "2.prems" [simplified] ]
  show ?case
    by (auto simp: tools_loop_keys)
qed

text \<open>
  C4. Every name of the catalog, and every key of the lookup map, starts with an ASCII letter,
  holds only letters, digits and underscores and is at most 63 characters long; every tool of
  every registered connection has its entry in the catalog, and when the sanitized form of
  \<open>connectionId + "__" + originalName\<close> is longer than 63 characters the entry's name is
  exactly 63 characters long.
\<close>

theorem catalog_names_wellformed:
  "(\<forall>d \<in> set (fst (get_all_tools uni conns)). catalog_name_ok (def_name d)) \<and>
   (\<forall>k \<in> fst ` set (snd (get_all_tools uni conns)). catalog_name_ok k) \<and>
   (\<forall>(conn_id, conn) \<in> set conns. \<forall>t \<in> set (conn_tools conn).
      tool_def_of uni conn_id t \<in> set (fst (get_all_tools uni conns)) \<and>
      (63 < length (re_sub_nonword (raw_name conn_id (tool_name t))) \<longrightarrow>
         length (def_name (tool_def_of uni conn_id t)) = 63))"
proof (intro conjI ballI)
  fix d assume "d \<in> set (fst (get_all_tools uni conns))"
  then obtain conn_id t where "d = tool_def_of uni conn_id t"
    by (auto simp: get_all_tools_fst)
  then show "catalog_name_ok (def_name d)"
    by (simp add: tool_def_of_def sanitized_name_ok)
next
  fix k assume "k \<in> fst ` set (snd (get_all_tools uni conns))"
  then have "\<exists>conn_id nm. k = sanitized_name uni conn_id nm"
    using connections_loop_keys [of k uni conns "([], [])"] by (simp add: get_all_tools_def)
  then show "catalog_name_ok k"
    by (auto simp: sanitized_name_ok)
next
  fix x assume x: "x \<in> set conns"
  show "case x of (conn_id, conn) \<Rightarrow> \<forall>t \<in> set (conn_tools conn).
      tool_def_of uni conn_id t \<in> set (fst (get_all_tools uni conns)) \<and>
      (63 < length (re_sub_nonword (raw_name conn_id (tool_name t))) \<longrightarrow>
         length (def_name (tool_def_of uni conn_id t)) = 63)"
  proof (cases x)
    case (Pair conn_id conn)
    have "tool_def_of uni conn_id t \<in> set (fst (get_all_tools uni conns))"
      if "t \<in> set (conn_tools conn)" for t
      using that x Pair by (force simp: get_all_tools_fst)
    moreover have "length (def_name (tool_def_of uni conn_id t)) = 63"
      if "63 < length (re_sub_nonword (raw_name conn_id (tool_name t)))" for t
      using that by (simp add: tool_def_of_def sanitized_name_long del: length_re_sub)
    ultimately show ?thesis
      using Pair by simp
  qed
qed

theorem catalog_names_wellformed_witness:
  "catalog_name_ok (def_name (tool_def_of (\<lambda>c. False) (py ''9srv'')
      \<lparr> tool_name = replicate 70 233, tool_description = None, tool_inputSchema = JNull \<rparr>)) \<and>
   length (def_name (tool_def_of (\<lambda>c. False) (py ''9srv'')
      \<lparr> tool_name = replicate 70 233, tool_description = None, tool_inputSchema = JNull \<rparr>)) = 63"
  using catalog_names_wellformed [of "\<lambda>c. False"
      "[(py ''9srv'', \<lparr> conn_name = py ''9srv'', conn_session = 2, conn_exit_stack = [0, 1, 2],
          conn_tools = [\<lparr> tool_name = replicate 70 233, tool_description = None,
                          tool_inputSchema = JNull \<rparr>],
          conn_resources = [], conn_prompts = [] \<rparr>)]"]
  by (simp add: get_all_tools_def raw_name_def)

section \<open>Connecting: resources and the registry\<close>

lemma enter_cases:
  "enter_async_context env cm stack w = (r, stack', w') \<Longrightarrow>
     (\<exists>e. r = Inl e \<and> stack' = stack \<and> live w' = live w \<and> clock w' = clock w + 1 \<and>
          trace w' = trace w @ [EnterFailed cm]) \<or>
     (r = Inr (clock w) \<and> stack' = stack @ [clock w] \<and> live w' = clock w # live w \<and>
        clock w' = clock w + 1 \<and> trace w' = trace w @ [Entered (clock w) cm])"
  by (auto simp: enter_async_context_def Let_def split: option.splits)

lemma live_aclose: "owns stack w0 w \<Longrightarrow> live (aclose stack w) = live w0"
proof (induction stack arbitrary: w rule: rev_induct)
  case Nil
  then show ?case by (simp add: aclose_def owns_def)
next
  case (snoc h stack)
  have "owns stack w0 (release h w)"
    using snoc.prems by (simp add: owns_def release_def)
  from snoc.IH [OF this] show ?case
    by (simp add: aclose_def)
qed

lemma enter_owns:
  "enter_async_context env cm stack w = (r, stack', w') \<Longrightarrow> owns stack w0 w \<Longrightarrow> owns stack' w0 w'"
  by (drule enter_cases) (auto simp: owns_def)

lemma open_transport_owns:
  "open_transport env target ty stack w = (r, stack', w') \<Longrightarrow> owns stack w0 w \<Longrightarrow> owns stack' w0 w'"
  by (auto simp: open_transport_def Let_def split: if_splits sum.splits prod.splits dest: enter_owns)

lemma initialize_session_owns:
  "initialize_session env ch stack w = (r, stack', w') \<Longrightarrow> owns stack w0 w \<Longrightarrow> owns stack' w0 w'"
  unfolding initialize_session_def Let_def
  by (auto split: if_splits sum.splits prod.splits option.splits exn.splits dest!: enter_owns simp: owns_def)

lemma owns_refl: "owns [] w w"
  by (simp add: owns_def)

lemma discover_live: "discover env session w = (r, w') \<Longrightarrow> live w' = live w"
  by (auto simp: discover_def Let_def)

lemma connect_try_owns:
  assumes "connect_try env cid target ty (conns, w) = (r, stack, conns', w')"
  shows "owns stack w w'"
proof (cases "detect_transport target ty")
  case (Inl e)
  with assms show ?thesis by (simp add: connect_try_def owns_refl)
next
  case (Inr tt)
  obtain target' ty' where tt: "tt = (target', ty')" by (cases tt)
  obtain r1 stack1 w1 where ot: "open_transport env target' ty' [] w = (r1, stack1, w1)"
    by (cases "open_transport env target' ty' [] w")
  have o1: "owns stack1 w w1"
    using open_transport_owns [OF ot owns_refl] .
  show ?thesis
  proof (cases r1)
    case (Inl e)
    with assms Inr tt ot o1 show ?thesis by (simp add: connect_try_def)
  next
    case ch: (Inr channel)
    obtain r2 stack2 w2 where ini: "initialize_session env channel stack1 w1 = (r2, stack2, w2)"
      by (cases "initialize_session env channel stack1 w1")
    have o2: "owns stack2 w w2"
      using initialize_session_owns [OF ini o1] .
    show ?thesis
    proof (cases r2)
      case (Inl e)
      with assms Inr tt ot ch ini o2 show ?thesis by (simp add: connect_try_def)
    next
      case s: (Inr session)
      obtain d w3 where di: "discover env session w2 = (d, w3)"
        by (cases "discover env session w2")
      have "live w3 = live w2" using discover_live [OF di] .
      with o2 have "owns stack2 w w3" by (simp add: owns_def)
      with assms Inr tt ot ch ini s di show ?thesis
        by (auto simp: connect_try_def split: prod.splits)
    qed
  qed
qed

lemma connect_try_fail_conns:
  "connect_try env cid target ty (conns, w) = (Inl e, stack, conns', w') \<Longrightarrow> conns' = conns"
  by (auto simp: connect_try_def split: sum.splits prod.splits)

lemmas connect_defs =
  connect_def connect_try_def detect_transport_def has_http_prefix_def endswith_def
  open_transport_def stdio_command_def find_script_def
  enter_async_context_def initialize_session_def discover_def aclose_def release_def Let_def py_def

lemma grows_refl: "grows stack w stack w"
  by (auto simp: grows_def entered_handles_def intro: exI [of _ "[]"])

lemma grows_trans:
  assumes "grows s0 w0 s1 w1" and "grows s1 w1 s2 w2"
  shows "grows s0 w0 s2 w2"
proof -
  from assms(1) obtain a where a: "trace w1 = trace w0 @ a" "s1 = s0 @ entered_handles a"
      "live w1 = rev (entered_handles a) @ live w0" "\<forall>h. Exited h \<notin> set a"
    by (auto simp: grows_def)
  from assms(2) obtain b where b: "trace w2 = trace w1 @ b" "s2 = s1 @ entered_handles b"
      "live w2 = rev (entered_handles b) @ live w1" "\<forall>h. Exited h \<notin> set b"
    by (auto simp: grows_def)
  have "trace w2 = trace w0 @ (a @ b)" "s2 = s0 @ entered_handles (a @ b)"
       "live w2 = rev (entered_handles (a @ b)) @ live w0" "\<forall>h. Exited h \<notin> set (a @ b)"
    using a b by (simp_all add: entered_handles_def)
  then show ?thesis
    unfolding grows_def by blast
qed

lemma enter_grows:
  assumes "enter_async_context env cm stack w = (r, stack', w')"
  shows "grows stack w stack' w'"
proof -
  from enter_cases [OF assms] show ?thesis
  proof
    assume "\<exists>e. r = Inl e \<and> stack' = stack \<and> live w' = live w \<and> clock w' = clock w + 1 \<and>
          trace w' = trace w @ [EnterFailed cm]"
    then show ?thesis
      by (auto simp: grows_def entered_handles_def intro!: exI [of _ "[EnterFailed cm]"])
  next
    assume "r = Inr (clock w) \<and> stack' = stack @ [clock w] \<and> live w' = clock w # live w \<and>
        clock w' = clock w + 1 \<and> trace w' = trace w @ [Entered (clock w) cm]"
    then show ?thesis
      by (auto simp: grows_def entered_handles_def intro!: exI [of _ "[Entered (clock w) cm]"])
  qed
qed

lemma open_transport_grows:
  assumes "open_transport env target ty stack w = (r, stack', w')"
  shows "grows stack w stack' w'"
proof -
  have two: "grows stack w s2 w2"
    if "enter_async_context env cm stack w = (r1, s1, w1)"
       "enter_async_context env cm s1 w1 = (r2, s2, w2)" for cm r1 s1 w1 r2 s2 w2
    using that by (blast intro: grows_trans enter_grows)
  show ?thesis
    using assms
    by (auto simp: open_transport_def split: if_splits sum.splits prod.splits
        intro: grows_refl enter_grows two)
qed

lemma initialize_session_grows:
  assumes "initialize_session env ch stack w = (r, stack', w')"
  shows "grows stack w stack' w'"
proof -
  obtain r1 s1 w1 where e: "enter_async_context env (ClientSession ch) stack w = (r1, s1, w1)"
    by (cases "enter_async_context env (ClientSession ch) stack w")
  have g1: "grows stack w s1 w1"
    using enter_grows [OF e] .
  show ?thesis
  proof (cases r1)
    case (Inl e1)
    with assms e have "stack' = s1" "w' = w1"
      by (simp_all add: initialize_session_def)
    with g1 show ?thesis by simp
  next
    case (Inr session)
    let ?w2 = "w1\<lparr>clock := clock w1 + 1, trace := trace w1 @ [Initialize session]\<rparr>"
    have "stack' = s1" "w' = ?w2"
      using assms e Inr
      by (auto simp: initialize_session_def Let_def split: option.splits exn.splits)
    moreover have "grows s1 w1 s1 ?w2"
      by (auto simp: grows_def entered_handles_def intro!: exI [of _ "[Initialize session]"])
    ultimately show ?thesis
      using g1 by (blast intro: grows_trans)
  qed
qed

lemma discover_grows: "discover env session w = (r, w') \<Longrightarrow> grows stack w stack w'"
  by (auto simp: discover_def Let_def grows_def entered_handles_def
      intro!: exI [of _ "[ListTools session, ListResources session, ListPrompts session]"])

lemma connect_try_grows:
  assumes "connect_try env cid target ty (conns, w) = (r, stack, conns', w')"
  shows "grows [] w stack w'"
proof (cases "detect_transport target ty")
  case (Inl e)
  with assms show ?thesis by (simp add: connect_try_def grows_refl)
next
  case (Inr tt)
  obtain target' ty' where tt: "tt = (target', ty')" by (cases tt)
  obtain r1 stack1 w1 where ot: "open_transport env target' ty' [] w = (r1, stack1, w1)"
    by (cases "open_transport env target' ty' [] w")
  have o1: "grows [] w stack1 w1"
    using open_transport_grows [OF ot] .
  show ?thesis
  proof (cases r1)
    case (Inl e)
    with assms Inr tt ot o1 show ?thesis by (simp add: connect_try_def)
  next
    case ch: (Inr channel)
    obtain r2 stack2 w2 where ini: "initialize_session env channel stack1 w1 = (r2, stack2, w2)"
      by (cases "initialize_session env channel stack1 w1")
    have o2: "grows [] w stack2 w2"
      using initialize_session_grows [OF ini] o1 by (blast intro: grows_trans)
    show ?thesis
    proof (cases r2)
      case (Inl e)
      with assms Inr tt ot ch ini o2 show ?thesis by (simp add: connect_try_def)
    next
      case s: (Inr session)
      obtain d w3 where di: "discover env session w2 = (d, w3)"
        by (cases "discover env session w2")
      have "grows [] w stack2 w3"
        using discover_grows [OF di] o2 by (blast intro: grows_trans)
      with assms Inr tt ot ch ini s di show ?thesis
        by (auto simp: connect_try_def split: prod.splits)
    qed
  qed
qed

lemma trace_aclose: "trace (aclose stack w) = trace w @ map Exited (rev stack)"
proof (induction stack arbitrary: w rule: rev_induct)
  case Nil
  show ?case by (simp add: aclose_def)
next
  case (snoc h stack)
  have "aclose (stack @ [h]) w = aclose stack (release h w)"
    by (simp add: aclose_def)
  then show ?case
    by (simp add: snoc.IH release_def)
qed

text \<open>
  C1. When \<open>connect\<close> fails, at whatever step, the registry is the one before the attempt (in
  particular the connection id maps to what it mapped to before) and the open resources are
  those that were open before the attempt: the events of the attempt are followed, before the
  error is raised, by the exit of every handle the attempt entered, last entered first.
\<close>

theorem connect_failure_releases:
  assumes "connect env cid target ty (conns, w) = (Inl e, conns', w')"
  shows "conns' = conns \<and> map_of conns' cid = map_of conns cid \<and> live w' = live w \<and>
         (\<exists>evs. trace w' = trace w @ evs @ map Exited (rev (entered_handles evs)) \<and>
                (\<forall>h. Exited h \<notin> set evs))"
proof -
  obtain r stack conns1 w1 where ct: "connect_try env cid target ty (conns, w) = (r, stack, conns1, w1)"
    by (cases "connect_try env cid target ty (conns, w)")
  from assms ct obtain e1 where r: "r = Inl e1" and c: "conns' = conns1" and w: "w' = aclose stack w1"
    by (cases r) (auto simp: connect_def)
  have "conns1 = conns" using connect_try_fail_conns ct r by blast
  moreover have "live w' = live w" using connect_try_owns [OF ct] w by (simp add: live_aclose)
  moreover from connect_try_grows [OF ct] obtain evs where
    "trace w1 = trace w @ evs" "stack = entered_handles evs" "\<forall>h. Exited h \<notin> set evs"
    by (auto simp: grows_def)
  then have "trace w' = trace w @ evs @ map Exited (rev (entered_handles evs)) \<and>
             (\<forall>h. Exited h \<notin> set evs)"
    using w by (simp add: trace_aclose)
  ultimately show ?thesis using c by blast
qed

theorem connect_failure_releases_witness:
  "isl (fst (connect (demo_env\<lparr>initialize_result := (\<lambda>n s. Some TimeoutError)\<rparr>)
         (py ''a'') (py ''tools_server.py'') (py ''http'') ([], idle_world))) \<and>
   fst (snd (connect (demo_env\<lparr>initialize_result := (\<lambda>n s. Some TimeoutError)\<rparr>)
         (py ''a'') (py ''tools_server.py'') (py ''http'') ([], idle_world))) = [] \<and>
   live (snd (snd (connect (demo_env\<lparr>initialize_result := (\<lambda>n s. Some TimeoutError)\<rparr>)
         (py ''a'') (py ''tools_server.py'') (py ''http'') ([], idle_world)))) = []"
proof -
  let ?X = "connect (demo_env\<lparr>initialize_result := (\<lambda>n s. Some TimeoutError)\<rparr>)
         (py ''a'') (py ''tools_server.py'') (py ''http'') ([], idle_world)"
  have f: "isl (fst ?X)"
    by (simp add: connect_defs demo_env_def idle_world_def)
  then have "?X = (Inl (projl (fst ?X)), fst (snd ?X), snd (snd ?X))"
    by simp
  from connect_failure_releases [OF this] f show ?thesis
    by (simp add: idle_world_def)
qed

lemma entries_append: "entries cm (a @ b) = entries cm a + entries cm b"
  by (simp add: entries_def)

lemma entries_release: "entries cm (trace (release h w)) = entries cm (trace w)"
  by (simp add: release_def entries_def)

lemma entries_aclose: "entries cm (trace (aclose stack w)) = entries cm (trace w)"
proof (induction stack arbitrary: w rule: rev_induct)
  case Nil
  show ?case by (simp add: aclose_def)
next
  case (snoc h stack)
  have "aclose (stack @ [h]) w = aclose stack (release h w)"
    by (simp add: aclose_def)
  then show ?case
    by (simp add: snoc.IH entries_release)
qed

lemma entries_enter:
  "enter_async_context env cm' stack w = (r, stack', w') \<Longrightarrow>
     entries cm (trace w') = entries cm (trace w) + (if cm' = cm then 1 else 0)"
  by (drule enter_cases) (auto simp: entries_def)

lemma entries_initialize_session:
  "initialize_session env ch stack w = (r, stack', w') \<Longrightarrow>
     entries (StdioClient c a e) (trace w') = entries (StdioClient c a e) (trace w)"
  unfolding initialize_session_def Let_def
  by (auto split: sum.splits prod.splits option.splits exn.splits dest!: entries_enter [where cm = "StdioClient c a e"]
      simp: entries_def)

lemma entries_discover:
  "discover env s w = (r, w') \<Longrightarrow> entries cm (trace w') = entries cm (trace w)"
  by (auto simp: discover_def Let_def entries_def)

lemma map_of_dict_set: "map_of (dict_set d k v) k = Some v"
  by (induction d k v rule: dict_set.induct) auto

lemma open_transport_stdio:
  assumes cmd: "stdio_command env target = Inr (command, args)"
      and first: "enter_result env (clock w) (stdio_params env command args) = None"
      and ot: "open_transport env target (py ''stdio'') [] w = (r, stack, w1)"
  shows "entries (stdio_params env command args) (trace w1) =
           entries (stdio_params env command args) (trace w) + 2 \<and>
         (\<forall>ch. r = Inr ch \<longrightarrow>
            ch = clock w + 1 \<and> stack = [clock w, clock w + 1] \<and> clock w1 = clock w + 2 \<and>
            live w1 = [clock w + 1, clock w] @ live w \<and>
            Entered (clock w) (stdio_params env command args) \<in> set (trace w1) \<and>
            Entered (clock w + 1) (stdio_params env command args) \<in> set (trace w1))"
proof -
  let ?P = "stdio_params env command args"
  let ?wa = "w\<lparr>clock := clock w + 1, live := clock w # live w,
                trace := trace w @ [Entered (clock w) ?P]\<rparr>"
  have e1: "enter_async_context env ?P [] w = (Inr (clock w), [clock w], ?wa)"
    using first by (simp add: enter_async_context_def Let_def)
  have ot2: "enter_async_context env ?P [clock w] ?wa = (r, stack, w1)"
    using ot cmd e1 by (simp add: open_transport_def stdio_params_def Let_def)
  from enter_cases [OF ot2] show ?thesis
    by (auto simp: entries_def)
qed

lemma initialize_session_ok:
  assumes "initialize_session env ch stack w = (Inr s, stack', w')"
  shows "s = clock w \<and> stack' = stack @ [clock w] \<and> live w' = clock w # live w \<and>
         trace w' = trace w @ [Entered (clock w) (ClientSession ch), Initialize (clock w)]"
  using assms unfolding initialize_session_def Let_def
  by (auto split: sum.splits prod.splits option.splits exn.splits dest!: enter_cases)

lemma discover_trace:
  "discover env s w = (r, w') \<Longrightarrow> set (trace w) \<subseteq> set (trace w')"
  by (auto simp: discover_def Let_def)

text \<open>
  C9. Over stdio, once the first entry of the stdio client has succeeded, the client is
  entered a second time with the same server parameters: the attempt enters it exactly twice.
  When the connection succeeds, its exit stack holds both entries and the session, the session
  runs over the channel of the second entry, all three are open, and \<open>disconnect\<close> releases
  them.
\<close>

theorem stdio_client_entered_twice:
  assumes det: "detect_transport target0 ty0 = Inr (target, py ''stdio'')"
      and cmd: "stdio_command env target = Inr (command, args)"
      and first: "enter_result env (clock w) (stdio_params env command args) = None"
      and con: "connect env cid target0 ty0 (conns, w) = (r, conns', w')"
  shows "entries (stdio_params env command args) (trace w') =
           entries (stdio_params env command args) (trace w) + 2 \<and>
         (\<forall>st. r = Inr st \<longrightarrow>
            (\<exists>conn. map_of conns' cid = Some conn \<and>
               conn_exit_stack conn = [clock w, clock w + 1, clock w + 2] \<and>
               conn_session conn = clock w + 2 \<and>
               Entered (clock w) (stdio_params env command args) \<in> set (trace w') \<and>
               Entered (clock w + 1) (stdio_params env command args) \<in> set (trace w') \<and>
               Entered (clock w + 2) (ClientSession (clock w + 1)) \<in> set (trace w') \<and>
               live w' = [clock w + 2, clock w + 1, clock w] @ live w \<and>
               live (snd (disconnect cid (conns', w'))) = live w))"
proof -
  let ?P = "stdio_params env command args"
  obtain r1 stack1 w1 where ot: "open_transport env target (py ''stdio'') [] w = (r1, stack1, w1)"
    by (cases "open_transport env target (py ''stdio'') [] w")
  note o = open_transport_stdio [OF cmd first ot]
  show ?thesis
  proof (cases r1)
    case (Inl e)
    then have "r = Inl (HTTPException 500 (py ''Connection Failed: '' @ exn_str e))"
          and "w' = aclose stack1 w1"
      using con det ot by (simp_all add: connect_def connect_try_def)
    then show ?thesis
      using o by (simp add: entries_aclose)
  next
    case ch: (Inr channel)
    then have chv: "channel = clock w + 1" and st1: "stack1 = [clock w, clock w + 1]"
      and cl1: "clock w1 = clock w + 2" and lv1: "live w1 = [clock w + 1, clock w] @ live w"
      and t1: "Entered (clock w) ?P \<in> set (trace w1)" "Entered (clock w + 1) ?P \<in> set (trace w1)"
      using o by simp_all
    obtain r2 stack2 w2 where ini: "initialize_session env channel stack1 w1 = (r2, stack2, w2)"
      by (cases "initialize_session env channel stack1 w1")
    have en2: "entries ?P (trace w2) = entries ?P (trace w) + 2"
      using entries_initialize_session [OF ini, of command args] o
      by (simp add: stdio_params_def)
    show ?thesis
    proof (cases r2)
      case (Inl e)
      then have "r = Inl (HTTPException 500 (py ''Connection Failed: '' @ exn_str e))"
            and "w' = aclose stack2 w2"
        using con det ot ch ini by (simp_all add: connect_def connect_try_def)
      then show ?thesis
        using en2 by (simp add: entries_aclose)
    next
      case s: (Inr session)
      note i = initialize_session_ok [OF ini [unfolded s] ]
      obtain d w3 where di: "discover env session w2 = (d, w3)"
        by (cases "discover env session w2")
      obtain ft fr fp where d: "d = (ft, fr, fp)" by (cases d)
      let ?conn = "\<lparr> conn_name = cid, conn_session = session, conn_exit_stack = stack2,
                      conn_tools = ft, conn_resources = fr, conn_prompts = fp \<rparr>"
      have res: "conns' = dict_set conns cid ?conn" "w' = w3"
        using con det ot ch ini s di d by (simp_all add: connect_def connect_try_def)
      have lv3: "live w3 = [clock w + 2, clock w + 1, clock w] @ live w"
        using discover_live [OF di] i lv1 cl1 by simp
      have stack2: "stack2 = [clock w, clock w + 1, clock w + 2]"
        using i st1 cl1 by simp
      have tr: "Entered (clock w) ?P \<in> set (trace w3)" "Entered (clock w + 1) ?P \<in> set (trace w3)"
               "Entered (clock w + 2) (ClientSession (clock w + 1)) \<in> set (trace w3)"
        using discover_trace [OF di] i t1 cl1 chv by auto
      have "owns stack2 w w3"
        using lv3 stack2 by (simp add: owns_def)
      then have dis: "live (snd (disconnect cid (conns', w'))) = live w"
        using res by (simp add: disconnect_def map_of_dict_set live_aclose)
      have "entries ?P (trace w') = entries ?P (trace w) + 2"
        using entries_discover [OF di] en2 res by simp
      moreover have "map_of conns' cid = Some ?conn"
        using res by (simp add: map_of_dict_set)
      ultimately show ?thesis
        using stack2 i cl1 tr lv3 dis res by simp
    qed
  qed
qed

theorem stdio_client_entered_twice_witness:
  "entries (stdio_params demo_env (py ''/usr/bin/python3'') [py ''/srv/tools_server.py''])
     (trace (snd (snd (connect demo_env (py ''a'') (py ''tools_server.py'') (py ''stdio'')
        ([], idle_world))))) = 2 \<and>
   live (snd (snd (connect demo_env (py ''a'') (py ''tools_server.py'') (py ''stdio'')
        ([], idle_world)))) = [2, 1, 0]"
proof -
  let ?X = "connect demo_env (py ''a'') (py ''tools_server.py'') (py ''stdio'') ([], idle_world)"
  have det: "detect_transport (py ''tools_server.py'') (py ''stdio'')
               = Inr (py ''tools_server.py'', py ''stdio'')"
    by (simp add: connect_defs)
  have cmd: "stdio_command demo_env (py ''tools_server.py'')
               = Inr (py ''/usr/bin/python3'', [py ''/srv/tools_server.py''])"
    by (simp add: connect_defs demo_env_def)
  have first: "enter_result demo_env (clock idle_world)
                 (stdio_params demo_env (py ''/usr/bin/python3'') [py ''/srv/tools_server.py'']) = None"
    by (simp add: demo_env_def)
  have ok: "\<not> isl (fst ?X)"
    by (simp add: connect_defs demo_env_def idle_world_def)
  have con: "?X = (fst ?X, fst (snd ?X), snd (snd ?X))"
    by simp
  from stdio_client_entered_twice [OF det cmd first con] ok show ?thesis
    by (cases "fst ?X") (auto simp: idle_world_def entries_def eval_nat_numeral)
qed

section \<open>The choice of the transport\<close>

lemma open_transport_stdio_entries:
  assumes "open_transport env target (py ''stdio'') stack w = (r, stack', w')"
      and "network_client cm"
  shows "entries cm (trace w') = entries cm (trace w)"
proof -
  have ne: "stdio_params env c a \<noteq> cm" for c a
    using assms(2) by (auto simp: stdio_params_def network_client_def)
  have one: "entries cm (trace w1) = entries cm (trace w0)"
    if "enter_async_context env (stdio_params env c a) s0 w0 = (r1, s1, w1)" for c a s0 w0 r1 s1 w1
    using entries_enter [OF that, of cm] ne by simp
  show ?thesis
    using assms(1)
    by (auto simp: open_transport_def split: sum.splits prod.splits dest!: one)
qed

lemma initialize_session_entries:
  assumes "initialize_session env ch stack w = (r, stack', w')"
      and "network_client cm"
  shows "entries cm (trace w') = entries cm (trace w)"
proof -
  have ne: "ClientSession ch \<noteq> cm"
    using assms(2) by (auto simp: network_client_def)
  obtain r1 s1 w1 where e: "enter_async_context env (ClientSession ch) stack w = (r1, s1, w1)"
    by (cases "enter_async_context env (ClientSession ch) stack w")
  have "entries cm (trace w1) = entries cm (trace w)"
    using entries_enter [OF e, of cm] ne by simp
  then show ?thesis
    using assms(1) e
    by (auto simp: initialize_session_def Let_def entries_def
        split: sum.splits option.splits exn.splits)
qed

lemma connect_stdio_entries:
  assumes det: "detect_transport target0 ty0 = Inr (target, py ''stdio'')"
      and con: "connect env cid target0 ty0 (conns, w) = (r, conns', w')"
      and net: "network_client cm"
  shows "entries cm (trace w') = entries cm (trace w)"
proof -
  obtain r1 stack1 w1 where ot: "open_transport env target (py ''stdio'') [] w = (r1, stack1, w1)"
    by (cases "open_transport env target (py ''stdio'') [] w")
  have e1: "entries cm (trace w1) = entries cm (trace w)"
    using open_transport_stdio_entries [OF ot net] .
  show ?thesis
  proof (cases r1)
    case (Inl e)
    then have "w' = aclose stack1 w1"
      using con det ot by (simp add: connect_def connect_try_def)
    then show ?thesis
      using e1 by (simp add: entries_aclose)
  next
    case ch: (Inr channel)
    obtain r2 stack2 w2 where ini: "initialize_session env channel stack1 w1 = (r2, stack2, w2)"
      by (cases "initialize_session env channel stack1 w1")
    have e2: "entries cm (trace w2) = entries cm (trace w)"
      using initialize_session_entries [OF ini net] e1 by simp
    show ?thesis
    proof (cases r2)
      case (Inl e)
      then have "w' = aclose stack2 w2"
        using con det ot ch ini by (simp add: connect_def connect_try_def)
      then show ?thesis
        using e2 by (simp add: entries_aclose)
    next
      case s: (Inr session)
      obtain d w3 where di: "discover env session w2 = (d, w3)"
        by (cases "discover env session w2")
      have "w' = w3"
        using con det ot ch ini s di by (auto simp: connect_def connect_try_def split: prod.splits)
      then show ?thesis
        using entries_discover [OF di, of cm] e2 by simp
    qed
  qed
qed

text \<open>
  C5, as the code has it. For a target that ends in \<open>.py\<close> and does not contain
  \<open>gitmcp.io\<close>, the stdio transport is selected for every requested type when the request
  comes through the endpoint \<open>connect_mcp\<close>, and for every requested type other than \<open>sse\<close>
  when \<open>connect\<close> is called directly; through the endpoint no client of a network transport
  is entered.
\<close>

theorem py_target_selects_stdio:
  assumes "endswith target (py ''.py'')" and "\<not> contains target (py ''gitmcp.io'')"
  shows "detect_transport target (endpoint_type target ty) = Inr (target, py ''stdio'') \<and>
         (ty \<noteq> py ''sse'' \<longrightarrow> detect_transport target ty = Inr (target, py ''stdio'')) \<and>
         (\<forall>cm. network_client cm \<longrightarrow>
            entries cm (trace (snd (snd (connect_mcp env cid target ty (conns, w)))))
              = entries cm (trace w))"
proof -
  have d: "detect_transport target (endpoint_type target ty) = Inr (target, py ''stdio'')"
    using assms by (simp add: detect_transport_def endpoint_type_def)
  have "entries cm (trace (snd (snd (connect_mcp env cid target ty (conns, w))))) = entries cm (trace w)"
    if "network_client cm" for cm
    using connect_stdio_entries [OF d _ that, of env cid conns w] 
    by (simp add: connect_mcp_def) (metis prod.collapse)
  then show ?thesis
    using d assms by (simp add: detect_transport_def)
qed

theorem py_target_selects_stdio_witness:
  "endswith (py ''tools_server.py'') (py ''.py'') \<and>
   \<not> contains (py ''tools_server.py'') (py ''gitmcp.io'') \<and>
   detect_transport (py ''tools_server.py'') (endpoint_type (py ''tools_server.py'') (py ''sse''))
     = Inr (py ''tools_server.py'', py ''stdio'')"
proof -
  have a: "endswith (py ''tools_server.py'') (py ''.py'')"
    by (simp add: endswith_def py_def)
  have b: "\<not> contains (py ''tools_server.py'') (py ''gitmcp.io'')"
    by (simp add: py_def)
  show ?thesis
    using a b py_target_selects_stdio [OF a b, of "py ''sse''"] by simp
qed

text \<open>
  C5 as stated fails: a target that ends in \<open>.py\<close> and contains \<open>gitmcp.io\<close> is given the
  event-stream transport, also through the endpoint, which has rewritten the type to stdio.
\<close>

theorem py_target_gitmcp_selects_sse:
  "endswith (py ''https://gitmcp.io/Rapptz/discord.py'') (py ''.py'') \<and>
   detect_transport (py ''https://gitmcp.io/Rapptz/discord.py'')
       (endpoint_type (py ''https://gitmcp.io/Rapptz/discord.py'') (py ''stdio''))
     = Inr (py ''https://gitmcp.io/Rapptz/discord.py/sse'', py ''sse'') \<and>
   trace (snd (snd (connect_mcp demo_env (py ''a'') (py ''https://gitmcp.io/Rapptz/discord.py'')
                      (py ''stdio'') ([], idle_world))))
     = [Entered 0 (SseClient (py ''https://gitmcp.io/Rapptz/discord.py/sse'')),
        Entered 1 (ClientSession 0), Initialize 1, ListTools 1, ListResources 1, ListPrompts 1]"
  by (simp add: connect_mcp_def endpoint_type_def connect_defs demo_env_def idle_world_def)

text \<open>
  Called directly with the type \<open>sse\<close>, \<open>connect\<close> keeps that type for a local script: line
  215 rewrites only the types other than \<open>stdio\<close> and \<open>sse\<close>.
\<close>

lemma py_target_direct_sse:
  "detect_transport (py ''tools_server.py'') (py ''sse'') = Inr (py ''tools_server.py'', py ''sse'')"
  by (simp add: detect_transport_def has_http_prefix_def endswith_def py_def)

section \<open>Tool execution\<close>

lemma contains_middle: "contains (a @ p @ b) p"
  by (simp add: contains_sublist sublist_appendI)

lemma contains_append_left: "contains s p \<Longrightarrow> contains (a @ s) p"
  by (simp add: contains_sublist sublist_append)

lemma format_commas_8000: "format_commas 8000 = py ''8,000''"
  by (simp add: format_commas_def decimal.simps py_def)

lemma decimal_digits: "c \<in> set (decimal n) \<Longrightarrow> 48 \<le> c \<and> c \<le> 57"
proof (induction n rule: decimal.induct)
  case (1 n)
  show ?case
  proof (cases "n < 10")
    case True
    with "1.prems" show ?thesis by (simp add: decimal.simps [of n])
  next
    case False
    with "1.prems" "1.IH" show ?thesis
      by (auto simp: decimal.simps [of n])
  qed
qed

lemma commas_rev_filter: "filter (\<lambda>c. c \<noteq> 44) (commas_rev ds) = filter (\<lambda>c. c \<noteq> 44) ds"
  by (induction ds rule: commas_rev.induct) simp_all

lemma format_commas_digits: "filter (\<lambda>c. c \<noteq> 44) (format_commas n) = decimal n"
proof -
  have "filter (\<lambda>c. c \<noteq> 44) (decimal n) = decimal n"
    using decimal_digits [of 44 n] by (intro filter_True) force
  then show ?thesis
    by (simp add: format_commas_def rev_filter [symmetric] commas_rev_filter)
qed

lemma format_commas_example: "format_commas 1234567 = py ''1,234,567''"
  by (simp add: format_commas_def decimal.simps py_def)

lemma banner_original:
  "contains (truncation_banner n) (py ''Original length: '' @ format_commas n @ py '' characters'')"
proof -
  have "truncation_banner n =
      ([10, 10] @ replicate 60 61 @ [10] @ [9888, 65039] @ py ''  OUTPUT TRUNCATED FOR PERFORMANCE'' @ [10] @
       replicate 60 61 @ [10] @ [128202] @ py '' '') @
      (py ''Original length: '' @ format_commas n @ py '' characters'') @
      ([10] @ [128202] @ py '' Displayed: '' @ format_commas MAX_TOOL_RESULT_LENGTH @
       py '' characters'' @ [10] @
       [128161] @ py '' Tip: Ask me to summarize or extract specific parts'' @ [10] @
       replicate 60 61)"
    by (simp add: truncation_banner_def py_def)
  then show ?thesis
    using contains_middle by metis
qed

lemma banner_displayed:
  "contains (truncation_banner n) (py ''Displayed: 8,000 characters'')"
proof -
  have "truncation_banner n =
      ([10, 10] @ replicate 60 61 @ [10] @ [9888, 65039] @ py ''  OUTPUT TRUNCATED FOR PERFORMANCE'' @ [10] @
       replicate 60 61 @ [10] @ [128202] @ py '' Original length: '' @ format_commas n @
       py '' characters'' @ [10] @ [128202] @ py '' '') @
      (py ''Displayed: 8,000 characters'') @
      ([10] @ [128161] @ py '' Tip: Ask me to summarize or extract specific parts'' @ [10] @
       replicate 60 61)"
    by (simp add: truncation_banner_def MAX_TOOL_RESULT_LENGTH_def format_commas_8000 py_def)
  then show ?thesis
    using contains_middle by metis
qed

lemma success_text_not_empty: "success_text s \<noteq> []"
  by (simp add: success_text_def)

lemma truncate_output_long:
  "8000 < length s \<Longrightarrow> success_text (truncate_output s) = take 8000 s @ truncation_banner (length s)"
  by (auto simp: success_text_def truncate_output_def MAX_TOOL_RESULT_LENGTH_def)

lemma truncate_output_short:
  "length s \<le> 8000 \<Longrightarrow> s \<noteq> [] \<Longrightarrow> success_text (truncate_output s) = s"
  by (simp add: success_text_def truncate_output_def MAX_TOOL_RESULT_LENGTH_def)

text \<open>
  C3. For a successful execution, with \<open>final_out\<close> the parts of the result joined by
  newlines: the text returned is never empty; when \<open>final_out\<close> is longer than 8000 characters
  it is the first 8000 characters followed by the banner, which states the original length and
  the displayed length (8,000); when \<open>final_out\<close> has exactly 8000 characters, or is not empty
  and shorter, it is returned as it is; when \<open>final_out\<close> is empty the success marker is
  returned.
\<close>

theorem tool_result_shaping:
  assumes found: "map_of tmap unique_name = Some info"
      and conn: "map_of conns (info_connection_id info) = Some conn"
      and call: "call_tool_outcome env (clock w) (conn_session conn) (info_real_name info) args
                   = Inr result"
      and ok: "\<not> isError result"
      and parts: "output_parts env result = Inr parts"
  shows "\<exists>out. fst (execute_tool env conns unique_name args tmap w) = Inr out \<and> out \<noteq> [] \<and>
      (8000 < length (join [10] parts) \<longrightarrow>
         out = take 8000 (join [10] parts) @ truncation_banner (length (join [10] parts)) \<and>
         contains out (py ''Original length: '' @ format_commas (length (join [10] parts)) @
                       py '' characters'') \<and>
         contains out (py ''Displayed: 8,000 characters'')) \<and>
      (length (join [10] parts) = 8000 \<longrightarrow> out = join [10] parts) \<and>
      (join [10] parts \<noteq> [] \<and> length (join [10] parts) \<le> 8000 \<longrightarrow> out = join [10] parts) \<and>
      (join [10] parts = [] \<longrightarrow> out = [9989] @ py '' Success (No output)'')"
proof -
  let ?s = "join [10] parts"
  let ?out = "success_text (truncate_output ?s)"
  have r: "fst (execute_tool env conns unique_name args tmap w) = Inr ?out"
    using assms by (simp add: execute_tool_def execute_tool_try_def Let_def)
  have long: "?out = take 8000 ?s @ truncation_banner (length ?s) \<and>
         contains ?out (py ''Original length: '' @ format_commas (length ?s) @ py '' characters'') \<and>
         contains ?out (py ''Displayed: 8,000 characters'')" if "8000 < length ?s"
    using that banner_original [of "length ?s"] banner_displayed [of "length ?s"]
    by (simp add: truncate_output_long contains_append_left)
  have short: "?out = ?s" if "?s \<noteq> []" "length ?s \<le> 8000"
    using that by (simp add: truncate_output_short)
  have exact: "?out = ?s" if "length ?s = 8000"
  proof -
    from that have "?s \<noteq> []" "length ?s \<le> 8000" by auto
    then show ?thesis by (rule short)
  qed
  have empty: "?out = [9989] @ py '' Success (No output)''" if "?s = []"
    using that by (simp add: success_text_def truncate_output_def)
  show ?thesis
    using r long short exact empty success_text_not_empty by blast
qed

theorem tool_result_shaping_witness:
  "fst (execute_tool
         (demo_env\<lparr>call_tool_outcome := (\<lambda>n s nm args.
            Inr \<lparr> isError = False, content = [TextContent (replicate 8001 120)],
                  structuredContent = None \<rparr>)\<rparr>)
         demo_connections (py ''a__t'') (JObj []) demo_tool_map idle_world)
     = Inr (replicate 8000 120 @ truncation_banner 8001)"
proof -
  let ?res = "\<lparr> isError = False, content = [TextContent (replicate 8001 120)],
                structuredContent = None \<rparr>"
  let ?env = "demo_env\<lparr>call_tool_outcome := (\<lambda>n s nm args. Inr ?res)\<rparr>"
  let ?info = "\<lparr> info_connection_id = py ''a'', info_real_name = py ''t'' \<rparr>"
  let ?conn = "snd (hd demo_connections)"
  have found: "map_of demo_tool_map (py ''a__t'') = Some ?info"
    by (simp add: demo_tool_map_def)
  have conn: "map_of demo_connections (info_connection_id ?info) = Some ?conn"
    by (simp add: demo_connections_def)
  have call: "call_tool_outcome ?env (clock idle_world) (conn_session ?conn) (info_real_name ?info)
                (JObj []) = Inr ?res"
    by simp
  have ok: "\<not> isError ?res"
    by simp
  have parts: "output_parts ?env ?res = Inr [replicate 8001 120]"
    by (simp add: output_parts_def)
  from tool_result_shaping [OF found conn call ok parts] show ?thesis
    by auto
qed

lemma execute_tool_outcomes:
  "(\<exists>rt w1. execute_tool env conns unique_name args tmap w = (Inr rt, w1) \<and> rt \<noteq> []) \<or>
   (\<exists>info conn w1.
      map_of tmap unique_name = Some info \<and> map_of conns (info_connection_id info) = Some conn \<and>
      call_tool_outcome env (clock w) (conn_session conn) (info_real_name info) args
        = Inl CancelledError \<and>
      execute_tool env conns unique_name args tmap w = (Inl CancelledError, w1))"
proof (cases "map_of tmap unique_name")
  case None
  then show ?thesis by (simp add: execute_tool_def py_def)
next
  case (Some info)
  show ?thesis
  proof (cases "map_of conns (info_connection_id info)")
    case None
    with Some show ?thesis by (simp add: execute_tool_def py_def)
  next
    case conn: (Some conn)
    show ?thesis
    proof (cases "call_tool_outcome env (clock w) (conn_session conn) (info_real_name info) args")
      case (Inl x)
      with Some conn show ?thesis
        by (cases x) (simp_all add: execute_tool_def execute_tool_try_def Let_def)
    next
      case (Inr result)
      with Some conn show ?thesis
        by (auto simp: execute_tool_def execute_tool_try_def Let_def success_text_not_empty py_def
            split: sum.splits)
    qed
  qed
qed

text \<open>
  C6, as the code has it. For a name that is absent from the lookup map the text returned
  says that the tool was not found, and for a name whose connection is not registered that
  the connection was lost; in both cases the world is left as it was: no tool is invoked.
  \<open>execute_tool\<close> never lets an exception derived from \<open>Exception\<close> reach the caller: an error
  reported by the tool and an exception of the call become texts, and a text returned is
  never empty. The one exception that reaches the caller is the cancellation of the awaited
  call, which the handler of line 623 does not catch.
\<close>

theorem execute_tool_errors_as_text:
  "(\<forall>e. fst (execute_tool env conns unique_name args tmap w) \<noteq> Inl (Exception e)) \<and>
   (\<forall>text. fst (execute_tool env conns unique_name args tmap w) = Inr text \<longrightarrow> text \<noteq> []) \<and>
   (fst (execute_tool env conns unique_name args tmap w) = Inl CancelledError \<longrightarrow>
      (\<exists>info conn.
         map_of tmap unique_name = Some info \<and> map_of conns (info_connection_id info) = Some conn \<and>
         call_tool_outcome env (clock w) (conn_session conn) (info_real_name info) args
           = Inl CancelledError)) \<and>
   (map_of tmap unique_name = None \<longrightarrow>
      execute_tool env conns unique_name args tmap w =
        (Inr (py ''Error: Tool '' @ unique_name @ py '' not found.''), w)) \<and>
   (\<forall>info. map_of tmap unique_name = Some info \<and> map_of conns (info_connection_id info) = None \<longrightarrow>
      execute_tool env conns unique_name args tmap w = (Inr (py ''Error: Connection lost.''), w)) \<and>
   (\<forall>info conn e.
      map_of tmap unique_name = Some info \<and> map_of conns (info_connection_id info) = Some conn \<and>
      call_tool_outcome env (clock w) (conn_session conn) (info_real_name info) args
        = Inl (Exception e) \<longrightarrow>
      fst (execute_tool env conns unique_name args tmap w) =
        Inr ([10060] @ py '' Tool Exception: '' @ exn_str e)) \<and>
   (\<forall>info conn.
      map_of tmap unique_name = Some info \<and> map_of conns (info_connection_id info) = Some conn \<and>
      call_tool_outcome env (clock w) (conn_session conn) (info_real_name info) args
        = Inl CancelledError \<longrightarrow>
      fst (execute_tool env conns unique_name args tmap w) = Inl CancelledError) \<and>
   (\<forall>info conn result.
      map_of tmap unique_name = Some info \<and> map_of conns (info_connection_id info) = Some conn \<and>
      call_tool_outcome env (clock w) (conn_session conn) (info_real_name info) args = Inr result \<and>
      isError result \<longrightarrow>
      fst (execute_tool env conns unique_name args tmap w) =
        Inr (py ''Tool Execution Error: '' @ content_list_str env (content result)))"
proof -
  note o = execute_tool_outcomes [of env conns unique_name args tmap w]
  have 1: "\<forall>e. fst (execute_tool env conns unique_name args tmap w) \<noteq> Inl (Exception e)"
    using o by auto
  have 2: "\<forall>text. fst (execute_tool env conns unique_name args tmap w) = Inr text \<longrightarrow> text \<noteq> []"
    using o by auto
  have 3: "fst (execute_tool env conns unique_name args tmap w) = Inl CancelledError \<longrightarrow>
      (\<exists>info conn.
         map_of tmap unique_name = Some info \<and> map_of conns (info_connection_id info) = Some conn \<and>
         call_tool_outcome env (clock w) (conn_session conn) (info_real_name info) args
           = Inl CancelledError)"
    using o by auto
  have 4: "map_of tmap unique_name = None \<longrightarrow>
      execute_tool env conns unique_name args tmap w =
        (Inr (py ''Error: Tool '' @ unique_name @ py '' not found.''), w)"
    by (simp add: execute_tool_def)
  have 5: "\<forall>info. map_of tmap unique_name = Some info \<and>
                 map_of conns (info_connection_id info) = None \<longrightarrow>
      execute_tool env conns unique_name args tmap w = (Inr (py ''Error: Connection lost.''), w)"
    by (simp add: execute_tool_def)
  have 6: "\<forall>info conn e.
      map_of tmap unique_name = Some info \<and> map_of conns (info_connection_id info) = Some conn \<and>
      call_tool_outcome env (clock w) (conn_session conn) (info_real_name info) args
        = Inl (Exception e) \<longrightarrow>
      fst (execute_tool env conns unique_name args tmap w) =
        Inr ([10060] @ py '' Tool Exception: '' @ exn_str e)"
    by (simp add: execute_tool_def execute_tool_try_def Let_def)
  have 7: "\<forall>info conn.
      map_of tmap unique_name = Some info \<and> map_of conns (info_connection_id info) = Some conn \<and>
      call_tool_outcome env (clock w) (conn_session conn) (info_real_name info) args
        = Inl CancelledError \<longrightarrow>
      fst (execute_tool env conns unique_name args tmap w) = Inl CancelledError"
    by (simp add: execute_tool_def execute_tool_try_def Let_def)
  have 8: "\<forall>info conn result.
      map_of tmap unique_name = Some info \<and> map_of conns (info_connection_id info) = Some conn \<and>
      call_tool_outcome env (clock w) (conn_session conn) (info_real_name info) args = Inr result \<and>
      isError result \<longrightarrow>
      fst (execute_tool env conns unique_name args tmap w) =
        Inr (py ''Tool Execution Error: '' @ content_list_str env (content result))"
    by (simp add: execute_tool_def execute_tool_try_def Let_def)
  show ?thesis
    using 1 2 3 4 5 6 7 8 by blast
qed

theorem execute_tool_errors_as_text_witness:
  "execute_tool demo_env demo_connections (py ''nope'') (JObj []) demo_tool_map idle_world
     = (Inr (py ''Error: Tool nope not found.''), idle_world) \<and>
   fst (execute_tool
          (demo_env\<lparr>call_tool_outcome := (\<lambda>n s nm args. Inl (Exception (Raised (py ''closed''))))\<rparr>)
          demo_connections (py ''a__t'') (JObj []) demo_tool_map idle_world)
     = Inr ([10060] @ py '' Tool Exception: closed'')"
proof -
  let ?env = "demo_env\<lparr>call_tool_outcome :=
                 (\<lambda>n s nm args. Inl (Exception (Raised (py ''closed''))))\<rparr>"
  let ?info = "\<lparr> info_connection_id = py ''a'', info_real_name = py ''t'' \<rparr>"
  let ?conn = "snd (hd demo_connections)"
  have a: "map_of demo_tool_map (py ''nope'') = None"
    by (simp add: demo_tool_map_def py_def)
  have b: "map_of demo_tool_map (py ''a__t'') = Some ?info \<and>
           map_of demo_connections (info_connection_id ?info) = Some ?conn \<and>
           call_tool_outcome ?env (clock idle_world) (conn_session ?conn) (info_real_name ?info)
             (JObj []) = Inl (Exception (Raised (py ''closed'')))"
    by (simp add: demo_tool_map_def demo_connections_def)
  from execute_tool_errors_as_text [of demo_env demo_connections "py ''nope''" "JObj []"
      demo_tool_map idle_world] a
  have 1: "execute_tool demo_env demo_connections (py ''nope'') (JObj []) demo_tool_map idle_world
     = (Inr (py ''Error: Tool '' @ py ''nope'' @ py '' not found.''), idle_world)"
    by blast
  from execute_tool_errors_as_text [of ?env demo_connections "py ''a__t''" "JObj []"
      demo_tool_map idle_world] b
  have 2: "fst (execute_tool ?env demo_connections (py ''a__t'') (JObj []) demo_tool_map idle_world)
     = Inr ([10060] @ py '' Tool Exception: '' @ exn_str (Raised (py ''closed'')))"
    by blast
  show ?thesis
    using 1 2 by (simp add: py_def)
qed

text \<open>
  C6 as stated fails: when the task that awaits the call of the tool is cancelled,
  \<open>asyncio.CancelledError\<close> passes the handler \<open>except Exception\<close> and \<open>execute_tool\<close> raises it to
  its caller, after the call was issued.
\<close>

theorem execute_tool_cancelled_raises:
  "execute_tool (demo_env\<lparr>call_tool_outcome := (\<lambda>n s nm args. Inl CancelledError)\<rparr>)
      demo_connections (py ''a__t'') (JObj []) demo_tool_map idle_world
     = (Inl CancelledError,
        \<lparr> clock = 1, live = [], trace = [CallTool 2 (py ''t'') (JObj [])] \<rparr>)"
  by (simp add: execute_tool_def execute_tool_try_def demo_tool_map_def demo_connections_def
      idle_world_def Let_def)

section \<open>The conversation store\<close>

lemma insert_or_replace_keeps:
  "r' \<in> set rows \<Longrightarrow> row_id r' \<noteq> row_id r \<Longrightarrow> r' \<in> set (insert_or_replace r rows)"
  by (simp add: insert_or_replace_def)

lemma insert_or_replace_new:
  "row_id r \<notin> row_id ` set rows \<Longrightarrow> insert_or_replace r rows = rows @ [r]"
proof -
  assume "row_id r \<notin> row_id ` set rows"
  then have "filter (\<lambda>r'. row_id r' \<noteq> row_id r) rows = rows"
    by (induction rows) auto
  then show ?thesis
    by (simp add: insert_or_replace_def)
qed

text \<open>
  C8, as the code has it. \<open>add_message\<close> writes by message id: every row with another id
  stays in the table as it is; a message whose id is not in the table is appended; and after
  the write the only row with the id of the message is the new one.
\<close>

theorem add_message_upsert:
  "(\<forall>r \<in> set rows. row_id r \<noteq> row_id (message_row fresh now sid m) \<longrightarrow>
       r \<in> set (snd (add_message fresh now sid m rows))) \<and>
   (row_id (message_row fresh now sid m) \<notin> row_id ` set rows \<longrightarrow>
       snd (add_message fresh now sid m rows) = rows @ [message_row fresh now sid m]) \<and>
   (\<forall>r \<in> set (snd (add_message fresh now sid m rows)).
       row_id r = row_id (message_row fresh now sid m) \<longrightarrow> r = message_row fresh now sid m)"
  by (auto simp: add_message_def Let_def insert_or_replace_keeps insert_or_replace_new)
     (auto simp: insert_or_replace_def)

theorem add_message_upsert_witness:
  "save_message (py ''u2'') 2 (py ''s'') ((demo_message (py ''second''))\<lparr>msg_id := None\<rparr>)
       (save_message (py ''u1'') 1 (py ''s'') (demo_message (py ''first'')) [])
     = [message_row (py ''u1'') 1 (py ''s'') (demo_message (py ''first'')),
        message_row (py ''u2'') 2 (py ''s'') ((demo_message (py ''second''))\<lparr>msg_id := None\<rparr>)]"
  using add_message_upsert [of "save_message (py ''u1'') 1 (py ''s'') (demo_message (py ''first'')) []"
      "py ''u2''" 2 "py ''s''" "(demo_message (py ''second''))\<lparr>msg_id := None\<rparr>"]
  by (simp add: save_message_def add_message_def insert_or_replace_def message_row_def
      demo_message_def py_def)

text \<open>
  C8 as stated fails: a message saved through the endpoint \<open>save_message\<close> with the id of a
  persisted turn replaces that turn.
\<close>

theorem persisted_turn_replaced:
  "map h_content (get_messages (py ''s'')
       (save_message (py ''u1'') 1 (py ''s'') (demo_message (py ''first'')) [])) = [py ''first''] \<and>
   map h_content (get_messages (py ''s'')
       (save_message (py ''u2'') 2 (py ''s'') (demo_message (py ''second''))
          (save_message (py ''u1'') 1 (py ''s'') (demo_message (py ''first'')) []))) = [py ''second'']"
  by (simp add: get_messages_def save_message_def add_message_def insert_or_replace_def
      message_row_def row_message_def demo_message_def)

section \<open>The shape of a turn\<close>

lemma all_text_simps [simp]:
  "all_text []"
  "all_text (evs @ [TextEvent c]) = all_text evs"
  by (simp_all add: all_text_def)


lemma groq_chunk_step_text:
  "all_text (snd (snd st)) \<Longrightarrow> all_text (snd (snd (groq_chunk_step st chunk)))"
  by (cases "(st, chunk)" rule: groq_chunk_step.cases) auto

lemma groq_chunks_text:
  "all_text (snd (snd st)) \<Longrightarrow> all_text (snd (snd (foldl groq_chunk_step st chunks)))"
  by (induction chunks arbitrary: st) (simp_all add: groq_chunk_step_text)





lemmas stream_defs =
  stream_groq_response_def stream_gemini_response_def get_all_tools_def
  groq_system_message_def groq_history_message_def gemini_history_message_def
  truthy_calls_def truthy_str_def str_or_empty_def accumulate_tool_call_def buffer_update_def
  completed_call_def db_add_message_def add_message_def insert_or_replace_def message_row_def
  assistant_message_def Let_def




lemma empty_user_turn_diverges:
  assumes "groq_async_client l" and "gemini_client l"
  shows "fst (stream_groq_response l uni conns sid [user_turn [] ] st) \<noteq> [] \<and>
         fst (stream_gemini_response l uni conns sid [user_turn [] ] st) = []"
  using assms
  by (auto simp: stream_groq_response_def stream_gemini_response_def user_turn_def
      groq_history_message_def gemini_history_message_def truthy_calls_def Let_def py_def
      split: prod.splits option.splits list.splits)

section \<open>A turn with a tool call\<close>

lemma relayed_text_simps [simp]:
  "relayed_text [] = []"
  "relayed_text (evs @ [TextEvent c]) = relayed_text evs @ c"
  by (simp_all add: relayed_text_def)

lemma groq_chunk_step_relayed:
  "fst st = relayed_text (snd (snd st)) \<Longrightarrow>
     fst (groq_chunk_step st chunk) = relayed_text (snd (snd (groq_chunk_step st chunk)))"
  by (cases "(st, chunk)" rule: groq_chunk_step.cases) auto

lemma groq_chunks_relayed:
  "fst st = relayed_text (snd (snd st)) \<Longrightarrow>
     fst (foldl groq_chunk_step st chunks) = relayed_text (snd (snd (foldl groq_chunk_step st chunks)))"
  by (induction chunks arbitrary: st) (simp_all add: groq_chunk_step_relayed)

lemma groq_call_accumulated:
  assumes cl: "groq_async_client l"
      and ne: "groq_system_message (fst (get_all_tools uni conns)) @
                 concat (map (groq_history_message l) hist) \<noteq> []"
      and cr: "groq_create l
                 (groq_system_message (fst (get_all_tools uni conns)) @
                    concat (map (groq_history_message l) hist))
                 (fst (get_all_tools uni conns)) = (chunks, None)"
      and fo: "foldl groq_chunk_step ([], [], []) chunks = (final_text, (idx, b) # buffer, events)"
  shows "stream_groq_response l uni conns sid hist (rows, w) =
           (events @ [ToolApprovalRequest (completed_call l b), DoneEvent],
            snd (add_message (uuid4 l (clock w + 1)) (clock w + 2) sid
                  (assistant_message (uuid4 l (clock w)) (py ''assistant'') (relayed_text events)
                     (Some (map (completed_call l) (b # map snd buffer)))) rows),
            w\<lparr>clock := clock w + 3\<rparr>) \<and>
         all_text events"
proof -
  have "all_text events"
    using groq_chunks_text [of "([], [], [])" chunks] fo by simp
  moreover have "final_text = relayed_text events"
    using groq_chunks_relayed [of "([], [], [])" chunks] fo by simp
  ultimately show ?thesis
    using cl ne cr fo by (simp add: stream_groq_response_def Let_def db_add_message_def)
qed

lemma gemini_calls_Cons:
  "gemini_stream_calls [ [Some (part # parts)] ] =
     (case part_function_call part of None \<Rightarrow> [] | Some fc \<Rightarrow> [fc]) @
     gemini_stream_calls [ [Some parts] ]"
  by (simp add: gemini_stream_calls_def)

lemma gemini_parts_flow:
  "all_text evs \<Longrightarrow> ft = relayed_text evs \<Longrightarrow>
     flow_spec l sid rows w (gemini_stream_calls [ [Some parts] ])
       (gemini_parts_loop l sid parts (ft, evs, rows, w))"
proof (induction parts arbitrary: ft evs)
  case Nil
  then show ?case by (simp add: flow_spec_def gemini_stream_calls_def)
next
  case (Cons part parts)
  show ?case
  proof (cases "part_function_call part")
    case None
    have calls: "gemini_stream_calls [ [Some (part # parts)] ] = gemini_stream_calls [ [Some parts] ]"
      using None by (simp add: gemini_calls_Cons)
    show ?thesis
    proof (cases "truthy_str (part_text part)")
      case True
      have "flow_spec l sid rows w (gemini_stream_calls [ [Some parts] ])
              (gemini_parts_loop l sid parts
                 (ft @ str_or_empty (part_text part),
                  evs @ [TextEvent (str_or_empty (part_text part))], rows, w))"
        using Cons.prems by (intro Cons.IH) simp_all
      then show ?thesis
        using None True by (simp add: calls)
    next
      case False
      have "flow_spec l sid rows w (gemini_stream_calls [ [Some parts] ])
              (gemini_parts_loop l sid parts (ft, evs, rows, w))"
        using Cons.prems by (intro Cons.IH)
      then show ?thesis
        using None False by (simp add: calls)
    qed
  next
    case (Some fc)
    obtain name args where fc: "fc = (name, args)" by (cases fc)
    show ?thesis
    proof (cases args)
      case None
      with Cons.prems Some fc show ?thesis
        by (simp add: flow_spec_def gemini_calls_Cons)
    next
      case args: (Some kvs)
      with Cons.prems Some fc show ?thesis
        by (auto simp: flow_spec_def gemini_calls_Cons gemini_call_turn_def Let_def
            db_add_message_def eval_nat_numeral)
    qed
  qed
qed

lemma gemini_calls_chunk:
  "gemini_stream_calls (chunk # chunks) = gemini_stream_calls [chunk] @ gemini_stream_calls chunks"
  by (simp add: gemini_stream_calls_def)

lemma gemini_chunks_flow:
  "all_text evs \<Longrightarrow> ft = relayed_text evs \<Longrightarrow>
     list_all (\<lambda>chunk. case chunk of None # other_candidates \<Rightarrow> False | _ \<Rightarrow> True) chunks \<Longrightarrow>
     flow_spec l sid rows w (gemini_stream_calls chunks)
       (gemini_chunks_loop l sid chunks (ft, evs, rows, w))"
proof (induction l sid chunks "(ft, evs, rows, w)" arbitrary: ft evs
       rule: gemini_chunks_loop.induct)
  case (1 l sid)
  then show ?case by (simp add: flow_spec_def gemini_stream_calls_def)
next
  case (2 l sid chunks)
  have "gemini_stream_calls ([] # chunks) = gemini_stream_calls chunks"
    by (simp add: gemini_stream_calls_def)
  with 2 show ?case by simp
next
  case (3 l sid other chunks)
  then show ?case by simp
next
  case (4 l sid parts other chunks)
  have p: "flow_spec l sid rows w (gemini_stream_calls [ [Some parts] ])
             (gemini_parts_loop l sid parts (ft, evs, rows, w))"
    using gemini_parts_flow [OF "4.prems"(1,2)] .
  have calls: "gemini_stream_calls ((Some parts # other) # chunks) =
                 gemini_stream_calls [ [Some parts] ] @ gemini_stream_calls chunks"
    by (simp add: gemini_stream_calls_def)
  have rest: "list_all (\<lambda>chunk. case chunk of None # other_candidates \<Rightarrow> False | _ \<Rightarrow> True) chunks"
    using "4.prems"(3) by simp
  show ?case
  proof (cases "gemini_parts_loop l sid parts (ft, evs, rows, w)")
    case (Next st1)
    obtain ft1 evs1 rows1 w1 where st1: "st1 = (ft1, evs1, rows1, w1)" by (cases st1)
    have s: "all_text evs1" "ft1 = relayed_text evs1" "rows1 = rows" "w1 = w"
         "gemini_stream_calls [ [Some parts] ] = []"
      using p Next st1 by (simp_all add: flow_spec_def)
    have "flow_spec l sid rows w (gemini_stream_calls chunks)
            (gemini_chunks_loop l sid chunks (ft1, evs1, rows, w))"
      using "4.hyps" [OF Next [unfolded st1 s(3,4)] s(1,2) rest] .
    then show ?thesis
      using Next st1 s by (simp add: calls)
  next
    case (Returned st1)
    with p show ?thesis
      by (auto simp: calls flow_spec_def)
  next
    case (Raising e st1)
    with p show ?thesis
      by (auto simp: calls flow_spec_def)
  qed
qed

lemma gemini_first_call_ends:
  assumes cl: "gemini_client l"
      and ne: "concat (map gemini_history_message hist) \<noteq> []"
      and cr: "gemini_generate_content_stream l
                 (gemini_system_instruction (fst (get_all_tools uni conns)))
                 (concat (map gemini_history_message hist))
                 (fst (get_all_tools uni conns)) = (chunks, failure)"
      and ok: "gemini_stream_ok chunks"
      and calls: "gemini_stream_calls chunks = (name, a) # others"
  shows "\<exists>pre args. a = Some args \<and> all_text pre \<and>
           stream_gemini_response l uni conns sid hist (rows, w) =
             gemini_call_turn l sid rows w pre name args"
proof -
  let ?f = "gemini_chunks_loop l sid chunks ([], [], rows, w)"
  have fs: "flow_spec l sid rows w ((name, a) # others) ?f"
    using gemini_chunks_flow [of "[]" "[]" chunks l sid rows w] ok calls
    by (simp add: gemini_stream_ok_def)
  have all: "list_all (\<lambda>fc. snd fc \<noteq> None) ((name, a) # others)"
    using ok calls by (simp add: gemini_stream_ok_def)
  from fs all obtain ft1 evs1 rows1 w1 pre args where
    r: "?f = Returned (ft1, evs1, rows1, w1)" "a = Some args" "all_text pre"
       "(evs1, rows1, w1) = gemini_call_turn l sid rows w pre name args"
    by (cases ?f) (auto simp: flow_spec_def)
  have "stream_gemini_response l uni conns sid hist (rows, w) = (evs1, rows1, w1)"
    using cl ne cr r(1) by (simp add: stream_gemini_response_def Let_def del: concat_eq_Nil_conv)
  with r show ?thesis by metis
qed

lemma accumulate_not_empty: "accumulate_tool_call buffer tc \<noteq> []"
proof -
  have a: "dict_set d k v \<noteq> []" for d :: "(nat \<times> buffered_call) list" and k v
    by (cases d) (auto split: if_splits)
  have b: "buffer_update d k f \<noteq> []" if "d \<noteq> []" for d k f
    using that by (simp add: buffer_update_def)
  have c: "map_of buffer (tcd_index tc) \<noteq> None \<Longrightarrow> buffer \<noteq> []"
    by auto
  show ?thesis
    unfolding accumulate_tool_call_def Let_def
    by (auto split: option.splits prod.splits simp: a b c)
qed

lemma accumulate_fold_not_empty:
  "buffer \<noteq> [] \<or> tcs \<noteq> [] \<Longrightarrow> foldl accumulate_tool_call buffer tcs \<noteq> []"
proof (induction tcs arbitrary: buffer)
  case Nil
  then show ?case by simp
next
  case (Cons tc tcs)
  show ?case
    using Cons.IH [of "accumulate_tool_call buffer tc"] accumulate_not_empty by simp
qed

lemma groq_buffer_not_empty:
  "fst (snd (foldl groq_chunk_step (ft, buffer, evs) chunks)) \<noteq> [] \<longleftrightarrow>
     buffer \<noteq> [] \<or> (\<exists>chunk \<in> set chunks. groq_has_tool_call chunk)"
proof (induction chunks arbitrary: ft buffer evs)
  case Nil
  show ?case by simp
next
  case (Cons chunk chunks)
  obtain ft1 buffer1 evs1 where s: "groq_chunk_step (ft, buffer, evs) chunk = (ft1, buffer1, evs1)"
    by (cases "groq_chunk_step (ft, buffer, evs) chunk")
  have "buffer1 \<noteq> [] \<longleftrightarrow> buffer \<noteq> [] \<or> groq_has_tool_call chunk"
  proof (cases chunk)
    case Nil
    with s show ?thesis by (simp add: groq_has_tool_call_def)
  next
    case (Cons delta other)
    show ?thesis
    proof (cases "d_tool_calls delta")
      case None
      with s Cons show ?thesis by (auto simp: groq_has_tool_call_def)
    next
      case (Some tcs)
      have "buffer1 = foldl accumulate_tool_call buffer tcs"
        using s Cons Some by auto
      then show ?thesis
        using accumulate_fold_not_empty [of buffer tcs] Cons Some
        by (cases tcs) (auto simp: groq_has_tool_call_def)
    qed
  qed
  then show ?case
    using Cons.IH [of ft1 buffer1 evs1] s by auto
qed

lemma all_text_no_approval:
  "all_text pre \<Longrightarrow> filter (\<lambda>e. shape_of e = ApprovalShape) pre = []"
  by (induction pre) (simp_all add: all_text_def)

text \<open>
  C2, as the code has it. On the Groq path, when the stream has ended without exception and
  the buffer holds at least one call: the events are the text events relayed, one tool
  approval request for the first call of the buffer and the sentinel; one turn of role
  \<open>assistant\<close> is written, with the text relayed and exactly the calls of the buffer, where an
  argument string that does not parse gives the empty object. On the Gemini path the turn
  ends at the first function call met: the events are the text events relayed before it,
  one tool approval request for that call and the sentinel, and one turn of role \<open>model\<close>
  is written with that one call; what the stream holds after it is not read.
\<close>

theorem tool_call_turn:
  "(groq_async_client l \<and>
    groq_system_message (fst (get_all_tools uni conns)) @
      concat (map (groq_history_message l) hist) \<noteq> [] \<and>
    groq_create l
      (groq_system_message (fst (get_all_tools uni conns)) @
         concat (map (groq_history_message l) hist))
      (fst (get_all_tools uni conns)) = (chunks, None) \<and>
    foldl groq_chunk_step ([], [], []) chunks = (final_text, (idx, b) # buffer, events)
    \<longrightarrow>
      stream_groq_response l uni conns sid hist (rows, w) =
        (events @ [ToolApprovalRequest (completed_call l b), DoneEvent],
         snd (add_message (uuid4 l (clock w + 1)) (clock w + 2) sid
               (assistant_message (uuid4 l (clock w)) (py ''assistant'') (relayed_text events)
                  (Some (map (completed_call l) (b # map snd buffer)))) rows),
         w\<lparr>clock := clock w + 3\<rparr>) \<and>
      all_text events \<and>
      length (filter (\<lambda>e. shape_of e = ApprovalShape)
                (fst (stream_groq_response l uni conns sid hist (rows, w)))) = 1 \<and>
      (\<forall>c \<in> set (b # map snd buffer).
          json_loads l (b_arguments c) = None \<longrightarrow> tc_args (completed_call l c) = JObj [])) \<and>
   (gemini_client l \<and>
    concat (map gemini_history_message hist) \<noteq> [] \<and>
    gemini_generate_content_stream l
      (gemini_system_instruction (fst (get_all_tools uni conns)))
      (concat (map gemini_history_message hist))
      (fst (get_all_tools uni conns)) = (gchunks, failure) \<and>
    gemini_stream_ok gchunks \<and> gemini_stream_calls gchunks = (name, a) # others
    \<longrightarrow>
      (\<exists>pre args.
          a = Some args \<and> all_text pre \<and>
          stream_gemini_response l uni conns sid hist (rows, w) =
            gemini_call_turn l sid rows w pre name args \<and>
          length (filter (\<lambda>e. shape_of e = ApprovalShape)
                    (fst (stream_gemini_response l uni conns sid hist (rows, w)))) = 1))"
proof (intro conjI impI)
  assume a: "groq_async_client l \<and>
    groq_system_message (fst (get_all_tools uni conns)) @
      concat (map (groq_history_message l) hist) \<noteq> [] \<and>
    groq_create l
      (groq_system_message (fst (get_all_tools uni conns)) @
         concat (map (groq_history_message l) hist))
      (fst (get_all_tools uni conns)) = (chunks, None) \<and>
    foldl groq_chunk_step ([], [], []) chunks = (final_text, (idx, b) # buffer, events)"
  then have g: "stream_groq_response l uni conns sid hist (rows, w) =
        (events @ [ToolApprovalRequest (completed_call l b), DoneEvent],
         snd (add_message (uuid4 l (clock w + 1)) (clock w + 2) sid
               (assistant_message (uuid4 l (clock w)) (py ''assistant'') (relayed_text events)
                  (Some (map (completed_call l) (b # map snd buffer)))) rows),
         w\<lparr>clock := clock w + 3\<rparr>) \<and> all_text events"
    by (intro groq_call_accumulated) blast+
  then show "stream_groq_response l uni conns sid hist (rows, w) =
        (events @ [ToolApprovalRequest (completed_call l b), DoneEvent],
         snd (add_message (uuid4 l (clock w + 1)) (clock w + 2) sid
               (assistant_message (uuid4 l (clock w)) (py ''assistant'') (relayed_text events)
                  (Some (map (completed_call l) (b # map snd buffer)))) rows),
         w\<lparr>clock := clock w + 3\<rparr>)"
    and "all_text events"
    by blast+
  show "length (filter (\<lambda>e. shape_of e = ApprovalShape)
                (fst (stream_groq_response l uni conns sid hist (rows, w)))) = 1"
    using g by (simp add: all_text_no_approval)
  show "\<forall>c \<in> set (b # map snd buffer).
          json_loads l (b_arguments c) = None \<longrightarrow> tc_args (completed_call l c) = JObj []"
    by (simp add: completed_call_def)
next
  assume a: "gemini_client l \<and>
    concat (map gemini_history_message hist) \<noteq> [] \<and>
    gemini_generate_content_stream l
      (gemini_system_instruction (fst (get_all_tools uni conns)))
      (concat (map gemini_history_message hist))
      (fst (get_all_tools uni conns)) = (gchunks, failure) \<and>
    gemini_stream_ok gchunks \<and> gemini_stream_calls gchunks = (name, a) # others"
  then have "\<exists>pre args. a = Some args \<and> all_text pre \<and>
           stream_gemini_response l uni conns sid hist (rows, w) =
             gemini_call_turn l sid rows w pre name args"
    by (intro gemini_first_call_ends) blast+
  then obtain pre args where r:
    "a = Some args" "all_text pre"
    "stream_gemini_response l uni conns sid hist (rows, w) = gemini_call_turn l sid rows w pre name args"
    by blast
  have "length (filter (\<lambda>e. shape_of e = ApprovalShape)
                    (fst (stream_gemini_response l uni conns sid hist (rows, w)))) = 1"
    using r by (simp add: gemini_call_turn_def all_text_no_approval)
  with r show "\<exists>pre args.
          a = Some args \<and> all_text pre \<and>
          stream_gemini_response l uni conns sid hist (rows, w) =
            gemini_call_turn l sid rows w pre name args \<and>
          length (filter (\<lambda>e. shape_of e = ApprovalShape)
                    (fst (stream_gemini_response l uni conns sid hist (rows, w)))) = 1"
    by blast
qed

theorem tool_call_turn_witness:
  "fst (stream_groq_response tool_llm (\<lambda>c. False) [] (py ''s'') [user_turn (py ''hi'')]
          ([], idle_world))
     = [TextEvent (py ''Hi''),
        ToolApprovalRequest \<lparr> tc_id = py ''call_1'', tc_name = py ''a__t'', tc_args = JObj [] \<rparr>,
        DoneEvent] \<and>
   (\<exists>pre. stream_gemini_response tool_llm (\<lambda>c. False) [] (py ''s'') [user_turn (py ''hi'')]
             ([], idle_world)
           = gemini_call_turn tool_llm (py ''s'') [] idle_world pre (py ''a__t'') [])"
proof -
  let ?b = "\<lparr> b_id = py ''call_1'', b_name = py ''a__t'', b_arguments = py ''{}'' \<rparr>"
  let ?gc = "fst (groq_create tool_llm [GroqUser (py ''hi'')] [])"
  let ?mc = "fst (gemini_generate_content_stream tool_llm (py ''You are a helpful AI assistant.'')
                [(py ''user'', [TextPart (py ''hi'')])] [])"
  have g1: "groq_async_client tool_llm \<and>
    groq_system_message (fst (get_all_tools (\<lambda>c. False) [])) @
      concat (map (groq_history_message tool_llm) [user_turn (py ''hi'')]) \<noteq> [] \<and>
    groq_create tool_llm
      (groq_system_message (fst (get_all_tools (\<lambda>c. False) [])) @
         concat (map (groq_history_message tool_llm) [user_turn (py ''hi'')]))
      (fst (get_all_tools (\<lambda>c. False) [])) = (?gc, None) \<and>
    foldl groq_chunk_step ([], [], []) ?gc = (py ''Hi'', (0, ?b) # [], [TextEvent (py ''Hi'')])"
    by (simp add: tool_llm_def demo_llm_def user_turn_def stream_defs py_def)
  have g2: "gemini_client tool_llm \<and>
    concat (map gemini_history_message [user_turn (py ''hi'')]) \<noteq> [] \<and>
    gemini_generate_content_stream tool_llm
      (gemini_system_instruction (fst (get_all_tools (\<lambda>c. False) [])))
      (concat (map gemini_history_message [user_turn (py ''hi'')]))
      (fst (get_all_tools (\<lambda>c. False) [])) = (?mc, None) \<and>
    gemini_stream_ok ?mc \<and>
    gemini_stream_calls ?mc = (py ''a__t'', Some []) # [(py ''a__u'', Some [])]"
    by (simp add: tool_llm_def demo_llm_def user_turn_def stream_defs gemini_system_instruction_def
        gemini_stream_ok_def gemini_stream_calls_def py_def)
  from tool_call_turn [of tool_llm "\<lambda>c. False" "[]" "[user_turn (py ''hi'')]" ?gc "py ''Hi''" 0 ?b
      "[]" "[TextEvent (py ''Hi'')]" "py ''s''" "[]" idle_world ?mc None "py ''a__t''" "Some []"
      "[(py ''a__u'', Some [])]"] g1 g2
  show ?thesis
    by (auto simp: completed_call_def tool_llm_def demo_llm_def py_def)
qed

text \<open>
  C2 as stated fails on the Gemini path: of the two function calls of the stream only the
  first is stored, in a turn of role \<open>model\<close>.
\<close>

theorem gemini_persists_first_call_only:
  "gemini_stream_calls
      (fst (gemini_generate_content_stream tool_llm (py ''You are a helpful AI assistant.'')
              [(py ''user'', [TextPart (py ''hi'')])] []))
     = [(py ''a__t'', Some []), (py ''a__u'', Some [])] \<and>
   map row_tool_calls
      (fst (snd (stream_gemini_response tool_llm (\<lambda>c. False) [] (py ''s'') [user_turn (py ''hi'')]
                  ([], idle_world))))
     = [Some [\<lparr> tc_id = py ''uuid-0'', tc_name = py ''a__t'', tc_args = JObj [] \<rparr>] ] \<and>
   map row_role
      (fst (snd (stream_gemini_response tool_llm (\<lambda>c. False) [] (py ''s'') [user_turn (py ''hi'')]
                  ([], idle_world))))
     = [py ''model'']"
  by (simp add: tool_llm_def demo_llm_def user_turn_def stream_defs gemini_system_instruction_def
      gemini_stream_calls_def idle_world_def decimal.simps py_def)

section \<open>Tool results in the history\<close>

lemma startswith_append: "startswith (p @ s) p"
  by (simp add: startswith_prefix)

lemma re_match_prefix:
  assumes "name \<noteq> []" and "39 \<notin> set name"
  shows "re_match_tool_name (tool_result_content name result_text) = Some name"
proof -
  let ?rest = "name @ [39] @ py '' Output:'' @ [10] @ result_text"
  have c: "tool_result_content name result_text = (py ''Tool '' @ [39]) @ ?rest"
    by (simp add: tool_result_content_def)
  have d: "drop 6 (tool_result_content name result_text) = ?rest"
    by (simp add: tool_result_content_def py_def)
  have all: "\<forall>c \<in> set name. c \<noteq> 39"
    using assms(2) by auto
  have tw: "takeWhile (\<lambda>c. c \<noteq> 39) ?rest = name"
    using all by (simp add: takeWhile_append2)
  have dw: "dropWhile (\<lambda>c. c \<noteq> 39) ?rest = ([39] @ py '' Output:'') @ [10] @ result_text"
    using all by (simp add: dropWhile_append2)
  have s1: "startswith (tool_result_content name result_text) (py ''Tool '' @ [39])"
    unfolding c by (rule startswith_append)
  have s2: "startswith (dropWhile (\<lambda>c. c \<noteq> 39) ?rest) ([39] @ py '' Output:'')"
    unfolding dw by (rule startswith_append)
  show ?thesis
    unfolding re_match_tool_name_def Let_def d tw
    using s1 s2 assms(1) by simp
qed

lemma re_search_prefix:
  assumes "name \<noteq> []" and "39 \<notin> set name"
  shows "re_search_tool_name (tool_result_content name result_text) = Some name"
proof -
  obtain c cs where "tool_result_content name result_text = c # cs"
    by (cases "tool_result_content name result_text") (simp_all add: tool_result_content_def py_def)
  then show ?thesis
    using re_match_prefix [OF assms, of result_text] by simp
qed

lemma re_search_absent:
  "\<not> contains s (py ''Tool '' @ [39]) \<Longrightarrow> re_search_tool_name s = None"
proof (induction s)
  case Nil
  then show ?case by simp
next
  case (Cons c cs)
  then have "\<not> startswith (c # cs) (py ''Tool '' @ [39])" and "\<not> contains cs (py ''Tool '' @ [39])"
    by simp_all
  with Cons.IH show ?case
    by (simp add: re_match_tool_name_def)
qed

text \<open>
  C10. The endpoint stores one turn for the result whenever \<open>execute_tool\<close> returns, whatever
  the tool did, and nothing when the call is cancelled. That turn
  has role \<open>user\<close>, the flag \<open>is_tool_result\<close>, the id of the originating call and the content
  \<open>Tool '<name>' Output:\<close>, a newline and the result text. The Groq translation makes of it a
  \<open>tool\<close> message with the call id; the Gemini translation makes of it a function response
  under the name that the regular expression finds in the content, which is the name of the
  request when that name is not empty and has no apostrophe, and \<open>unknown_tool\<close> for a content
  in which the text \<open>Tool '\<close> does not occur.
\<close>

theorem tool_result_turn:
  "((\<exists>result_text w1.
       execute_tool env conns (req_tool_name req) (req_tool_args req)
         (snd (get_all_tools uni conns)) w = (Inr result_text, w1) \<and>
       persist_tool_result env l uni req conns (rows, w) =
         Inr (result_text,
              insert_or_replace
                (message_row (uuid4 l (clock w1 + 1)) (clock w1 + 2) (req_session_id req)
                   (tool_result_message (uuid4 l (clock w1)) req result_text)) rows,
              w1\<lparr>clock := clock w1 + 3\<rparr>)) \<or>
    (\<exists>w1.
       execute_tool env conns (req_tool_name req) (req_tool_args req)
         (snd (get_all_tools uni conns)) w = (Inl CancelledError, w1) \<and>
       persist_tool_result env l uni req conns (rows, w) = Inl CancelledError)) \<and>
   (let r = message_row fresh now (req_session_id req) (tool_result_message u req result)
    in row_role r = py ''user'' \<and> row_is_tool_result r \<and>
       row_tool_call_id r = Some (req_tool_call_id req) \<and>
       row_content r = tool_result_content (req_tool_name req) result \<and>
       row_tool_calls r = None \<and>
       groq_history_message l (row_message r) =
         [GroqTool (Some (req_tool_call_id req)) (truncate_for_groq (row_content r))] \<and>
       gemini_history_message (row_message r) =
         [(py ''user'',
           [FunctionResponsePart (gemini_tool_name (row_content r))
              (truncate_for_gemini (row_content r))])] \<and>
       (req_tool_name req \<noteq> [] \<and> 39 \<notin> set (req_tool_name req) \<longrightarrow>
          gemini_tool_name (row_content r) = req_tool_name req)) \<and>
   (\<not> contains c (py ''Tool '' @ [39]) \<longrightarrow> gemini_tool_name c = py ''unknown_tool'')"
proof (intro conjI)
  let ?x = "execute_tool env conns (req_tool_name req) (req_tool_args req)
              (snd (get_all_tools uni conns)) w"
  from execute_tool_outcomes [of env conns "req_tool_name req" "req_tool_args req"
      "snd (get_all_tools uni conns)" w]
  consider (returns) rt w1 where "?x = (Inr rt, w1)"
    | (cancelled) w1 where "?x = (Inl CancelledError, w1)"
    by blast
  then show "(\<exists>result_text w1.
       execute_tool env conns (req_tool_name req) (req_tool_args req)
         (snd (get_all_tools uni conns)) w = (Inr result_text, w1) \<and>
       persist_tool_result env l uni req conns (rows, w) =
         Inr (result_text,
              insert_or_replace
                (message_row (uuid4 l (clock w1 + 1)) (clock w1 + 2) (req_session_id req)
                   (tool_result_message (uuid4 l (clock w1)) req result_text)) rows,
              w1\<lparr>clock := clock w1 + 3\<rparr>)) \<or>
    (\<exists>w1.
       execute_tool env conns (req_tool_name req) (req_tool_args req)
         (snd (get_all_tools uni conns)) w = (Inl CancelledError, w1) \<and>
       persist_tool_result env l uni req conns (rows, w) = Inl CancelledError)"
  proof cases
    case returns
    then have "persist_tool_result env l uni req conns (rows, w) =
        Inr (rt,
             insert_or_replace
               (message_row (uuid4 l (clock w1 + 1)) (clock w1 + 2) (req_session_id req)
                  (tool_result_message (uuid4 l (clock w1)) req rt)) rows,
             w1\<lparr>clock := clock w1 + 3\<rparr>)"
      by (simp add: persist_tool_result_def db_add_message_def add_message_def Let_def)
    with returns show ?thesis by blast
  next
    case cancelled
    then have "persist_tool_result env l uni req conns (rows, w) = Inl CancelledError"
      by (simp add: persist_tool_result_def)
    with cancelled show ?thesis by blast
  qed
next
  let ?r = "message_row fresh now (req_session_id req) (tool_result_message u req result)"
  have c: "row_content ?r = tool_result_content (req_tool_name req) result"
    by (simp add: message_row_def tool_result_message_def tool_result_content_def)
  have f: "row_role ?r = py ''user''" "row_is_tool_result ?r"
          "row_tool_call_id ?r = Some (req_tool_call_id req)" "row_tool_calls ?r = None"
    by (simp_all add: message_row_def tool_result_message_def)
  have g: "groq_history_message l (row_message ?r) =
         [GroqTool (Some (req_tool_call_id req)) (truncate_for_groq (row_content ?r))]"
    using f by (simp add: groq_history_message_def row_message_def truncate_for_groq_def)
  have m: "gemini_history_message (row_message ?r) =
         [(py ''user'',
           [FunctionResponsePart (gemini_tool_name (row_content ?r))
              (truncate_for_gemini (row_content ?r))])]"
    using f by (simp add: gemini_history_message_def row_message_def truncate_for_gemini_def
        truthy_calls_def Let_def py_def)
  have n: "gemini_tool_name (row_content ?r) = req_tool_name req"
    if "req_tool_name req \<noteq> [] \<and> 39 \<notin> set (req_tool_name req)"
    using that by (simp add: c gemini_tool_name_def re_search_prefix)
  show "let r = ?r
    in row_role r = py ''user'' \<and> row_is_tool_result r \<and>
       row_tool_call_id r = Some (req_tool_call_id req) \<and>
       row_content r = tool_result_content (req_tool_name req) result \<and>
       row_tool_calls r = None \<and>
       groq_history_message l (row_message r) =
         [GroqTool (Some (req_tool_call_id req)) (truncate_for_groq (row_content r))] \<and>
       gemini_history_message (row_message r) =
         [(py ''user'',
           [FunctionResponsePart (gemini_tool_name (row_content r))
              (truncate_for_gemini (row_content r))])] \<and>
       (req_tool_name req \<noteq> [] \<and> 39 \<notin> set (req_tool_name req) \<longrightarrow>
          gemini_tool_name (row_content r) = req_tool_name req)"
    unfolding Let_def using c f g m n by blast
next
  show "\<not> contains c (py ''Tool '' @ [39]) \<longrightarrow> gemini_tool_name c = py ''unknown_tool''"
    by (simp add: gemini_tool_name_def re_search_absent)
qed

theorem tool_result_turn_witness:
  "gemini_history_message
      (row_message (message_row (py ''u1'') 7 (py ''s'')
         (tool_result_message (py ''u0'') demo_request (py ''42''))))
     = [(py ''user'',
         [FunctionResponsePart (py ''a__t'') (tool_result_content (py ''a__t'') (py ''42''))])] \<and>
   gemini_tool_name (py ''no tool here'') = py ''unknown_tool''"
proof -
  let ?r = "message_row (py ''u1'') 7 (req_session_id demo_request)
              (tool_result_message (py ''u0'') demo_request (py ''42''))"
  have a: "req_tool_name demo_request \<noteq> [] \<and> 39 \<notin> set (req_tool_name demo_request)"
    by (simp add: demo_request_def py_def)
  have b: "\<not> contains (py ''no tool here'') (py ''Tool '' @ [39])"
    by (simp add: py_def)
  have c: "truncate_for_gemini (tool_result_content (py ''a__t'') (py ''42''))
             = tool_result_content (py ''a__t'') (py ''42'')"
    by (simp add: truncate_for_gemini_def tool_result_content_def)
  have s: "req_session_id demo_request = py ''s''" "req_tool_name demo_request = py ''a__t''"
    by (simp_all add: demo_request_def)
  note t = tool_result_turn [where env = demo_env and conns = demo_connections
      and uni = "\<lambda>c. False" and w = idle_world and l = demo_llm and rows = "[]"
      and req = demo_request and fresh = "py ''u1''" and now = 7
      and u = "py ''u0''" and result = "py ''42''" and c = "py ''no tool here''",
      unfolded Let_def]
  from t a have 1: "gemini_history_message (row_message ?r) =
         [(py ''user'',
           [FunctionResponsePart (gemini_tool_name (row_content ?r))
              (truncate_for_gemini (row_content ?r))])]"
    and 2: "gemini_tool_name (row_content ?r) = req_tool_name demo_request"
    and 3: "row_content ?r = tool_result_content (req_tool_name demo_request) (py ''42'')"
    by blast+
  from t b have 4: "gemini_tool_name (py ''no tool here'') = py ''unknown_tool''"
    by blast
  show ?thesis
    using 1 2 3 4 c by (simp add: s)
qed

end
